theory Spec2Isabelle
  imports Complex_Main "HOL-Library.Monad_Syntax"
begin

section \<open>Text as the script sees it\<close>

text \<open>
  The script works on Python \<open>str\<close> values. A text is modelled as a \<^typ>\<open>string\<close>,
  one \<^typ>\<open>char\<close> per code point, which covers the texts whose code points lie below 256.
  On that range the character classes of Python's \<open>re\<close> module and of \<open>str.strip\<close> are
  the finite sets written out below, and a code point takes one byte in UTF-8 below 128
  and two bytes from 128 on.
\<close>

abbreviation nl :: char where
  "nl \<equiv> CHR ''\<newline>''"

definition is_space :: "char \<Rightarrow> bool" where
  \<comment> \<open>\<open>\s\<close> and \<open>str.isspace\<close>: TAB, LF, VT, FF, CR, FS, GS, RS, US, SPACE, NEL, NBSP\<close>
  "is_space c = (let n = (of_char c :: nat)
                 in (9 \<le> n \<and> n \<le> 13) \<or> (28 \<le> n \<and> n \<le> 32) \<or> n = 133 \<or> n = 160)"

definition is_digit :: "char \<Rightarrow> bool" where
  \<comment> \<open>\<open>\d\<close>: the decimal digits\<close>
  "is_digit c = (let n = (of_char c :: nat) in 48 \<le> n \<and> n \<le> 57)"

definition digit_val :: "char \<Rightarrow> nat" where
  "digit_val c = (of_char c :: nat) - 48"

definition nat_of_digits :: "string \<Rightarrow> nat" where
  \<comment> \<open>\<open>int(ds)\<close> for a non-empty run of decimal digits (the interpreter's configurable limit
      on the number of digits is not modelled)\<close>
  "nat_of_digits ds = foldl (\<lambda>a c. 10 * a + digit_val c) 0 ds"

definition strip :: "string \<Rightarrow> string" where
  \<comment> \<open>\<open>s.strip()\<close>\<close>
  "strip s = rev (dropWhile is_space (rev (dropWhile is_space s)))"

fun match_lit :: "string \<Rightarrow> string \<Rightarrow> string option" where
  \<comment> \<open>a literal of a pattern at the head of the text: the rest of the text after it\<close>
  "match_lit [] s = Some s"
| "match_lit (p # ps) [] = None"
| "match_lit (p # ps) (c # cs) = (if p = c then match_lit ps cs else None)"

fun contains :: "string \<Rightarrow> string \<Rightarrow> bool" where
  \<comment> \<open>\<open>sub in s\<close>\<close>
  "contains sub [] = (sub = [])"
| "contains sub (c # cs) = (match_lit sub (c # cs) \<noteq> None \<or> contains sub cs)"

fun remove_from :: "string \<Rightarrow> nat \<Rightarrow> string \<Rightarrow> string" where
  \<comment> \<open>\<open>s.replace(old, "")\<close> for a non-empty \<open>old\<close>, scanning from the left; the counter
      holds how many characters of an occurrence found earlier are still to be dropped\<close>
  "remove_from old k [] = []"
| "remove_from old k (c # cs) =
     (if 0 < k then remove_from old (k - 1) cs
      else if match_lit old (c # cs) \<noteq> None then remove_from old (length old - 1) cs
      else c # remove_from old 0 cs)"

definition remove_all :: "string \<Rightarrow> string \<Rightarrow> string" where
  "remove_all old s = remove_from old 0 s"

fun split_on :: "char \<Rightarrow> string \<Rightarrow> string list" where
  \<comment> \<open>\<open>s.split(c)\<close>\<close>
  "split_on d [] = [[]]"
| "split_on d (c # cs) =
     (if c = d then [] # split_on d cs
      else (case split_on d cs of [] \<Rightarrow> [[c]] | l # ls \<Rightarrow> (c # l) # ls))"

fun join_nl :: "string list \<Rightarrow> string" where
  \<comment> \<open>\<open>"\n".join(lines)\<close>\<close>
  "join_nl [] = []"
| "join_nl [l] = l"
| "join_nl (l # ls) = l @ nl # join_nl ls"

fun str_nat_aux :: "nat \<Rightarrow> nat \<Rightarrow> string \<Rightarrow> string" where
  "str_nat_aux 0 n acc = acc"
| "str_nat_aux (Suc fuel) n acc =
     (let acc' = char_of (48 + n mod 10) # acc
      in if n < 10 then acc' else str_nat_aux fuel (n div 10) acc')"

definition str_nat :: "nat \<Rightarrow> string" where
  \<comment> \<open>decimal digits of a natural number; \<open>n + 1\<close> steps always suffice\<close>
  "str_nat n = str_nat_aux (Suc n) n []"

definition str_int :: "int \<Rightarrow> string" where
  \<comment> \<open>\<open>str(i)\<close> and \<open>f"{i}"\<close> for an \<open>int\<close>\<close>
  "str_int i = (if i < 0 then CHR ''-'' # str_nat (nat (- i)) else str_nat (nat i))"

section \<open>Data model\<close>

text \<open>
  \<open>float\<close> values are kept as rationals: arithmetic and comparisons are exact, where the
  script rounds to the nearest double. Reading a float from text and printing one are
  left to the Python runtime and enter the model as parameters. A duration is a \<open>float\<close>
  in most places and an \<open>int\<close> in a few (the \<open>0\<close> that stands in for a missing value),
  and the two print differently, so a number keeps which one it is.
\<close>

datatype number = PyInt int | PyFloat rat

fun num_val :: "number \<Rightarrow> rat" where
  "num_val (PyInt i) = of_int i"
| "num_val (PyFloat x) = x"

record TestCase =
  tc_name :: string
  tc_classname :: string
  tc_status :: string
  tc_duration :: number
  tc_message :: string
  tc_output :: string

definition new_case :: "string \<Rightarrow> TestCase" where
  \<comment> \<open>\<open>TestCase(name=n)\<close> with the dataclass defaults\<close>
  "new_case n = \<lparr>tc_name = n, tc_classname = [], tc_status = ''passed'', tc_duration = PyFloat 0,
                 tc_message = [], tc_output = []\<rparr>"

record TestSummary =
  title :: string
  passed :: int
  failed :: int
  skipped :: int
  errors :: int
  total :: int
  duration :: number
  test_cases :: "TestCase list"
  raw_output :: string
  format_detected :: string
  timestamp :: string

definition new_summary :: "string \<Rightarrow> TestSummary" where
  \<comment> \<open>\<open>TestSummary(format_detected=f)\<close> with the dataclass defaults\<close>
  "new_summary f = \<lparr>title = ''Test Results'', passed = 0, failed = 0, skipped = 0, errors = 0,
                    total = 0, duration = PyFloat 0, test_cases = [], raw_output = [],
                    format_detected = f, timestamp = []\<rparr>"

definition calculate_totals :: "TestSummary \<Rightarrow> TestSummary" where
  "calculate_totals s =
     (if total s = 0 then s\<lparr>total := passed s + failed s + skipped s + errors s\<rparr> else s)"

definition status :: "TestSummary \<Rightarrow> string" where
  "status s = (if failed s > 0 \<or> errors s > 0 then ''failed''
               else if passed s > 0 then ''passed''
               else ''unknown'')"

definition pass_rate :: "TestSummary \<Rightarrow> rat" where
  "pass_rate s = (if total s = 0 then 0 else (of_int (passed s) / of_int (total s)) * 100)"

section \<open>TAP parser\<close>

fun search :: "(bool \<Rightarrow> string \<Rightarrow> 'a option) \<Rightarrow> bool \<Rightarrow> string \<Rightarrow> 'a option" where
  \<comment> \<open>\<open>re.search\<close>: the match at the leftmost position that has one. The flag tells whether
      the position is at the start of a line, which is where \<open>^\<close> matches under
      \<open>re.MULTILINE\<close>: at the start of the text and after each newline.\<close>
  "search m bol [] = m bol []"
| "search m bol (c # cs) =
     (case m bol (c # cs) of Some r \<Rightarrow> Some r | None \<Rightarrow> search m (c = nl) cs)"

definition plan_at :: "bool \<Rightarrow> string \<Rightarrow> string option" where
  \<comment> \<open>\<open>^1\.\.(\d+)\<close> at one position: group 1, the whole run of digits\<close>
  "plan_at bol s =
     (if \<not> bol then None
      else case match_lit ''1..'' s of
             None \<Rightarrow> None
           | Some r \<Rightarrow> (let ds = takeWhile is_digit r in if ds = [] then None else Some ds))"

definition ok_word :: "string \<Rightarrow> (string \<times> string) option" where
  \<comment> \<open>\<open>(ok|not ok)\<close>: the alternatives in their order; group 1 and the text after it\<close>
  "ok_word s =
     (case match_lit ''ok'' s of
        Some r \<Rightarrow> Some (''ok'', r)
      | None \<Rightarrow> (case match_lit ''not ok'' s of
                   Some r \<Rightarrow> Some (''not ok'', r)
                 | None \<Rightarrow> None))"

definition opt_char :: "char \<Rightarrow> string \<Rightarrow> string" where
  \<comment> \<open>an optional character of a pattern, such as \<open>-?\<close>: taken when it is there\<close>
  "opt_char d s = (case s of [] \<Rightarrow> [] | c # cs \<Rightarrow> if c = d then cs else c # cs)"

definition result_at :: "string \<Rightarrow> ((string \<times> string \<times> string) \<times> string) option" where
  \<comment> \<open>\<open>^(ok|not ok)\s+(\d+)\s*-?\s*(.*)$\<close> at the start of a line: the three groups and the
      text after the match. Every quantifier is greedy and none has to give anything back:
      \<open>\s+\<close> and \<open>\s*\<close> take whitespace (newlines too) up to the next other character,
      \<open>\d+\<close> takes the whole run of digits, and \<open>(.*)$\<close> takes the rest of the line it
      has reached.\<close>
  "result_at s =
     (case ok_word s of
        None \<Rightarrow> None
      | Some (g1, r1) \<Rightarrow>
          if takeWhile is_space r1 = [] then None
          else let r2 = dropWhile is_space r1;
                   g2 = takeWhile is_digit r2
               in if g2 = [] then None
                  else let r3 = dropWhile is_space (dropWhile is_digit r2);
                           r4 = dropWhile is_space (opt_char CHR ''-'' r3)
                       in Some ((g1, g2, takeWhile (\<lambda>c. c \<noteq> nl) r4),
                                dropWhile (\<lambda>c. c \<noteq> nl) r4))"

lemma match_lit_length: "match_lit p s = Some r \<Longrightarrow> length r + length p = length s"
  by (induction p s rule: match_lit.induct) (auto split: if_splits)

lemma ok_word_shorter: "ok_word s = Some (g, r) \<Longrightarrow> length r < length s"
  by (auto simp: ok_word_def split: option.splits dest!: match_lit_length)

lemma opt_char_length: "length (opt_char d s) \<le> length s"
  by (cases s) (auto simp: opt_char_def)

lemma result_at_shorter:
  assumes "result_at s = Some (g, r)"
  shows "length r < length s"
proof -
  from assms obtain g1 r1 where ok: "ok_word s = Some (g1, r1)"
    and r: "r = dropWhile (\<lambda>c. c \<noteq> nl) (dropWhile is_space (opt_char CHR ''-''
              (dropWhile is_space (dropWhile is_digit (dropWhile is_space r1)))))"
    by (auto simp: result_at_def Let_def split: option.splits if_splits)
  let ?r3 = "dropWhile is_space (dropWhile is_digit (dropWhile is_space r1))"
  have "length ?r3 \<le> length r1"
    by (meson length_dropWhile_le le_trans)
  moreover have "length r \<le> length (opt_char CHR ''-'' ?r3)"
    unfolding r by (meson length_dropWhile_le le_trans)
  moreover have "length (opt_char CHR ''-'' ?r3) \<le> length ?r3"
    by (rule opt_char_length)
  ultimately show ?thesis using ok_word_shorter[OF ok] by linarith
qed

function tap_results :: "bool \<Rightarrow> string \<Rightarrow> (string \<times> string \<times> string) list" where
  \<comment> \<open>\<open>re.finditer\<close> of the result pattern: the matches from left to right, each search
      resuming where the match before ended (inside a line, never at the start of one)\<close>
  "tap_results bol [] = []"
| "tap_results bol (c # cs) =
     (if bol then
        (case result_at (c # cs) of
           Some (g, r) \<Rightarrow> g # tap_results False r
         | None \<Rightarrow> tap_results (c = nl) cs)
      else tap_results (c = nl) cs)"
  by pat_completeness auto
termination
  by (relation "measure (\<lambda>(b, s). length s)") (auto dest: result_at_shorter)

definition tap_case :: "TestSummary \<Rightarrow> string \<times> string \<times> string \<Rightarrow> TestSummary" where
  \<comment> \<open>the body of the loop over the matches\<close>
  "tap_case summary m =
     (case m of (g1, g2, g3) \<Rightarrow>
        let status0 = (if g1 = ''ok'' then ''passed'' else ''failed'');
            name0 = strip g3;
            (status1, name) =
              (if contains ''# SKIP'' name0 then (''skipped'', strip (remove_all ''# SKIP'' name0))
               else if contains ''# TODO'' name0 then (''skipped'', strip (remove_all ''# TODO'' name0))
               else (status0, name0));
            summary1 =
              (if status1 = ''passed'' then summary\<lparr>passed := passed summary + 1\<rparr>
               else if status1 = ''failed'' then summary\<lparr>failed := failed summary + 1\<rparr>
               else summary\<lparr>skipped := skipped summary + 1\<rparr>);
            test_case = (new_case (if name = [] then ''Test '' @ g2 else name))\<lparr>tc_status := status1\<rparr>
        in summary1\<lparr>test_cases := test_cases summary1 @ [test_case]\<rparr>)"

definition parse_tap :: "string \<Rightarrow> TestSummary" where
  \<comment> \<open>\<open>parse_tap\<close> on the text read from the file\<close>
  "parse_tap content =
     (let summary = (new_summary ''tap'')\<lparr>raw_output := content\<rparr>;
          summary1 = (case search plan_at True content of
                        Some ds \<Rightarrow> summary\<lparr>total := int (nat_of_digits ds)\<rparr>
                      | None \<Rightarrow> summary);
          summary2 = foldl tap_case summary1 (tap_results True content)
      in calculate_totals summary2)"

section \<open>Errors and the Python runtime\<close>

text \<open>
  An exception that leaves a function is the \<open>Inl\<close> result of its model. Each error
  carries its message; where the runtime itself raises (\<open>float\<close>, \<open>int\<close>, \<open>open\<close>, a
  missing attribute) the message holds the offending text instead of the runtime's wording.
\<close>

datatype error =
    FileNotFoundError string
  | ValueError string
  | TypeError string
  | AttributeError string
  | KeyError string
  | OSError string

fun message :: "error \<Rightarrow> string" where
  "message (FileNotFoundError m) = m"
| "message (ValueError m) = m"
| "message (TypeError m) = m"
| "message (AttributeError m) = m"
| "message (KeyError m) = m"
| "message (OSError m) = m"

record runtime =
  float_of_str :: "string \<Rightarrow> rat option"  \<comment> \<open>\<open>float(s)\<close>; \<open>None\<close> when it raises \<open>ValueError\<close>\<close>
  fmt_fixed :: "nat \<Rightarrow> rat \<Rightarrow> string"      \<comment> \<open>\<open>f"{x:.nf}"\<close>\<close>
  str_float :: "rat \<Rightarrow> string"              \<comment> \<open>\<open>f"{x}"\<close> for a float\<close>

definition py_float :: "runtime \<Rightarrow> string \<Rightarrow> error + rat" where
  "py_float rt s = (case float_of_str rt s of None \<Rightarrow> Inl (ValueError s) | Some x \<Rightarrow> Inr x)"

section \<open>Pieces of the patterns\<close>

definition run1 :: "(char \<Rightarrow> bool) \<Rightarrow> string \<Rightarrow> (string \<times> string) option" where
  \<comment> \<open>a greedy \<open>c+\<close> for a character class: the whole run, which must not be empty, and the
      text after it. A shorter run never helps what follows in the patterns of this script,
      since what follows never starts with a character of the class.\<close>
  "run1 P s = (if takeWhile P s = [] then None else Some (takeWhile P s, dropWhile P s))"

definition is_num_char :: "char \<Rightarrow> bool" where
  \<comment> \<open>\<open>[0-9.]\<close>\<close>
  "is_num_char c = (is_digit c \<or> c = CHR ''.'')"

definition lower :: "char \<Rightarrow> char" where
  "lower c = (let n = (of_char c :: nat) in if 65 \<le> n \<and> n \<le> 90 then char_of (n + 32) else c)"

fun match_ci :: "string \<Rightarrow> string \<Rightarrow> string option" where
  \<comment> \<open>a lower-case literal under \<open>re.IGNORECASE\<close>\<close>
  "match_ci [] s = Some s"
| "match_ci (p # ps) [] = None"
| "match_ci (p # ps) (c # cs) = (if p = lower c then match_ci ps cs else None)"

definition first_of :: "string list \<Rightarrow> string \<Rightarrow> (string \<times> string) option" where
  \<comment> \<open>an alternation of literals, \<open>(A|B|C)\<close>: the first alternative that matches\<close>
  "first_of alts s =
     (case filter (\<lambda>a. match_lit a s \<noteq> None) alts of
        [] \<Rightarrow> None
      | a # _ \<Rightarrow> map_option (Pair a) (match_lit a s))"

section \<open>npm/Jest parser\<close>

definition count_clause :: "string \<Rightarrow> string \<Rightarrow> (string \<times> string) option" where
  \<comment> \<open>\<open>(\d+)\s+word\<close>\<close>
  "count_clause word s =
     do { (ds, r) \<leftarrow> run1 is_digit s;
          (ws, r') \<leftarrow> run1 is_space r;
          r'' \<leftarrow> match_lit word r';
          Some (ds, r'') }"

definition later_clause :: "string \<Rightarrow> string \<Rightarrow> (string \<times> string) option" where
  \<comment> \<open>\<open>,?\s*(\d+)\s+word\<close>\<close>
  "later_clause word s = count_clause word (dropWhile is_space (opt_char CHR '','' s))"

definition optional :: "(string \<Rightarrow> (string \<times> string) option) \<Rightarrow> string \<Rightarrow> string option \<times> string" where
  \<comment> \<open>\<open>(?:...)?\<close> around a clause: its group when the clause matches here, else no group and
      the position unchanged\<close>
  "optional m s = (case m s of Some (g, r) \<Rightarrow> (Some g, r) | None \<Rightarrow> (None, s))"

definition tests_at ::
  "bool \<Rightarrow> string \<Rightarrow> (string option \<times> string option \<times> string option \<times> string option) option" where
  \<comment> \<open>the \<open>Tests:\<close> pattern at one position: the four groups. The clauses are tried in the
      order passed, failed, skipped, total, each where the one before stopped.\<close>
  "tests_at bol s =
     do { r \<leftarrow> match_lit ''Tests:'' s;
          let (g1, r1) = optional (count_clause ''passed'') (dropWhile is_space r);
              (g2, r2) = optional (later_clause ''failed'') r1;
              (g3, r3) = optional (later_clause ''skipped'') r2;
              (g4, r4) = optional (later_clause ''total'') r3
          in Some (g1, g2, g3, g4) }"

definition group_int :: "string option \<Rightarrow> int" where
  \<comment> \<open>\<open>int(g or 0)\<close> for a group of digits\<close>
  "group_int g = (case g of None \<Rightarrow> 0 | Some ds \<Rightarrow> int (nat_of_digits ds))"

definition time_at :: "bool \<Rightarrow> string \<Rightarrow> string option" where
  \<comment> \<open>\<open>Time:\s*([0-9.]+)\s*s\<close> at one position: group 1\<close>
  "time_at bol s =
     do { r \<leftarrow> match_lit ''Time:'' s;
          (g, r') \<leftarrow> run1 is_num_char (dropWhile is_space r);
          _ \<leftarrow> match_lit ''s'' (dropWhile is_space r');
          Some g }"

definition suite_at :: "string \<Rightarrow> ((string \<times> string) \<times> string) option" where
  \<comment> \<open>\<open>(PASS|FAIL)\s+(\S+)\<close> at one position: the two groups and the text after the match\<close>
  "suite_at s =
     do { (g1, r) \<leftarrow> first_of [''PASS'', ''FAIL''] s;
          (ws, r') \<leftarrow> run1 is_space r;
          (g2, r'') \<leftarrow> run1 (\<lambda>c. \<not> is_space c) r';
          Some ((g1, g2), r'') }"

lemma run1_length: "run1 P s = Some (g, r) \<Longrightarrow> length r \<le> length s"
  by (auto simp: run1_def length_dropWhile_le split: if_splits)

lemma first_of_shorter:
  assumes "first_of alts s = Some (a, r)" and "[] \<notin> set alts"
  shows "length r < length s"
proof -
  from assms(1) obtain as where f: "filter (\<lambda>a. match_lit a s \<noteq> None) alts = a # as"
    and m: "match_lit a s = Some r"
    by (auto simp: first_of_def split: list.splits)
  have "a \<in> set (filter (\<lambda>a. match_lit a s \<noteq> None) alts)"
    unfolding f by simp
  then have "a \<in> set alts" by simp
  with assms(2) have "a \<noteq> []" by auto
  with match_lit_length [OF m] show ?thesis by (cases a) auto
qed

lemma suite_at_shorter:
  assumes "suite_at s = Some (g, r)"
  shows "length r < length s"
proof -
  from assms obtain g1 r1 ws r2 g2 where a: "first_of [''PASS'', ''FAIL''] s = Some (g1, r1)"
    and b: "run1 is_space r1 = Some (ws, r2)"
    and c: "run1 (\<lambda>c. \<not> is_space c) r2 = Some (g2, r)"
    by (auto simp: suite_at_def split: Option.bind_splits)
  have "length r1 < length s" using first_of_shorter [OF a] by simp
  with run1_length [OF b] run1_length [OF c] show ?thesis by linarith
qed

function npm_suites :: "string \<Rightarrow> (string \<times> string) list" where
  \<comment> \<open>\<open>re.finditer\<close> of the suite pattern\<close>
  "npm_suites [] = []"
| "npm_suites (c # cs) =
     (case suite_at (c # cs) of
        Some (g, r) \<Rightarrow> g # npm_suites r
      | None \<Rightarrow> npm_suites cs)"
  by pat_completeness auto
termination
  by (relation "measure length") (auto dest: suite_at_shorter)

definition npm_case :: "string \<times> string \<Rightarrow> TestCase" where
  "npm_case g = (case g of (g1, g2) \<Rightarrow>
     (new_case g2)\<lparr>tc_status := (if g1 = ''PASS'' then ''passed'' else ''failed'')\<rparr>)"

definition parse_npm_test :: "runtime \<Rightarrow> string \<Rightarrow> error + TestSummary" where
  \<comment> \<open>\<open>parse_npm_test\<close> on the text read from the file\<close>
  "parse_npm_test rt content =
     (let summary = (new_summary ''npm'')\<lparr>raw_output := content\<rparr>;
          summary1 = (case search tests_at True content of
                        Some (g1, g2, g3, g4) \<Rightarrow>
                          summary\<lparr>passed := group_int g1, failed := group_int g2,
                                  skipped := group_int g3, total := group_int g4\<rparr>
                      | None \<Rightarrow> summary)
      in case (case search time_at True content of
                 Some g \<Rightarrow> map_sum id (\<lambda>x. summary1\<lparr>duration := PyFloat x\<rparr>) (py_float rt g)
               | None \<Rightarrow> Inr summary1) of
           Inl e \<Rightarrow> Inl e
         | Inr summary2 \<Rightarrow>
             Inr (calculate_totals
                    (summary2\<lparr>test_cases := test_cases summary2 @ map npm_case (npm_suites content)\<rparr>)))"

section \<open>JUnit XML parser\<close>

text \<open>
  The parsers for the structured formats start from what the library made of the file:
  the file could not be read, it was read and is malformed (with the library's account of
  the cause), or it was read into a tree.
\<close>

datatype 'a loaded = Unreadable string | Malformed string | Loaded 'a

text \<open>
  An element of \<open>xml.etree.ElementTree\<close>: its tag, its attributes (their names distinct),
  its text (\<open>None\<close> when there is none before the first child) and its child elements.
\<close>

datatype xml = Element (tag: string) (attrib: "(string \<times> string) list") (elem_text: "string option")
  (children: "xml list")

definition get :: "xml \<Rightarrow> string \<Rightarrow> string option" where
  \<comment> \<open>\<open>e.get(key)\<close>\<close>
  "get e k = map_of (attrib e) k"

fun descendants :: "xml \<Rightarrow> xml list" where
  \<comment> \<open>the elements on all levels beneath an element, in document order\<close>
  "descendants (Element t a x cs) = concat (map (\<lambda>c. c # descendants c) cs)"

definition findall_desc :: "string \<Rightarrow> xml \<Rightarrow> xml list" where
  \<comment> \<open>\<open>e.findall(".//tg")\<close>\<close>
  "findall_desc tg e = filter (\<lambda>d. tag d = tg) (descendants e)"

definition find_child :: "string \<Rightarrow> xml \<Rightarrow> xml option" where
  \<comment> \<open>\<open>e.find(tg)\<close>: the first child with that tag\<close>
  "find_child tg e = List.find (\<lambda>c. tag c = tg) (children e)"

definition is_int_space :: "char \<Rightarrow> bool" where
  \<comment> \<open>the whitespace that \<open>int\<close> skips around a number: TAB, LF, VT, FF, CR, SPACE, NEL, NBSP\<close>
  "is_int_space c = (let n = (of_char c :: nat) in (9 \<le> n \<and> n \<le> 13) \<or> n = 32 \<or> n = 133 \<or> n = 160)"

fun digits_ok :: "string \<Rightarrow> bool" where
  \<comment> \<open>decimal digits, with single underscores allowed between two digits\<close>
  "digits_ok [] = False"
| "digits_ok [c] = is_digit c"
| "digits_ok (c # d # r) = (is_digit c \<and> (if d = CHR ''_'' then digits_ok r else digits_ok (d # r)))"

definition py_int :: "string \<Rightarrow> error + int" where
  \<comment> \<open>\<open>int(s)\<close> for a text: whitespace around, an optional sign, the digits. The
      interpreter's configurable limit on the number of digits is not modelled.\<close>
  "py_int s =
     (let t = rev (dropWhile is_int_space (rev (dropWhile is_int_space s)));
          (neg, body) = (case t of
                           [] \<Rightarrow> (False, [])
                         | c # r \<Rightarrow> if c = CHR ''-'' then (True, r)
                                    else if c = CHR ''+'' then (False, r)
                                    else (False, t))
      in if digits_ok body
         then Inr (let n = int (nat_of_digits (filter is_digit body)) in if neg then - n else n)
         else Inl (ValueError s))"

definition and_then :: "error + 'a \<Rightarrow> ('a \<Rightarrow> error + 'b) \<Rightarrow> error + 'b" where
  \<comment> \<open>the next statement runs when the one before raised nothing\<close>
  "and_then r f = (case r of Inl e \<Rightarrow> Inl e | Inr x \<Rightarrow> f x)"

fun fold_err :: "('s \<Rightarrow> 'a \<Rightarrow> error + 's) \<Rightarrow> 's \<Rightarrow> 'a list \<Rightarrow> error + 's" where
  \<comment> \<open>a \<open>for\<close> loop that the first exception leaves\<close>
  "fold_err f s [] = Inr s"
| "fold_err f s (x # xs) = (case f s x of Inl e \<Rightarrow> Inl e | Inr s' \<Rightarrow> fold_err f s' xs)"

definition attr_int :: "xml \<Rightarrow> string \<Rightarrow> error + int" where
  \<comment> \<open>\<open>int(e.get(key, 0))\<close>\<close>
  "attr_int e k = (case get e k of None \<Rightarrow> Inr 0 | Some v \<Rightarrow> py_int v)"

definition attr_float :: "runtime \<Rightarrow> xml \<Rightarrow> string \<Rightarrow> error + rat" where
  \<comment> \<open>\<open>float(e.get(key, 0))\<close>\<close>
  "attr_float rt e k = (case get e k of None \<Rightarrow> Inr 0 | Some v \<Rightarrow> py_float rt v)"

definition attr_or :: "xml \<Rightarrow> string \<Rightarrow> string \<Rightarrow> string" where
  \<comment> \<open>\<open>e.get(key, default)\<close>\<close>
  "attr_or e k d = (case get e k of None \<Rightarrow> d | Some v \<Rightarrow> v)"

definition junit_case :: "runtime \<Rightarrow> xml \<Rightarrow> error + TestCase" where
  \<comment> \<open>the body of the loop over the \<open>testcase\<close> elements, up to the \<open>append\<close>\<close>
  "junit_case rt tc =
     and_then (attr_float rt tc ''time'') (\<lambda>d.
       let test_case = (new_case (attr_or tc ''name'' ''unknown''))
                         \<lparr>tc_classname := attr_or tc ''classname'' [], tc_duration := PyFloat d\<rparr>
       in Inr (case find_child ''failure'' tc of
                 Some failure_el \<Rightarrow>
                   test_case\<lparr>tc_status := ''failed'',
                              tc_message := attr_or failure_el ''message'' [],
                              tc_output := (case elem_text failure_el of None \<Rightarrow> [] | Some t \<Rightarrow> t)\<rparr>
               | None \<Rightarrow>
                  (case find_child ''error'' tc of
                     Some error_el \<Rightarrow>
                       test_case\<lparr>tc_status := ''error'',
                                  tc_message := attr_or error_el ''message'' [],
                                  tc_output := (case elem_text error_el of None \<Rightarrow> [] | Some t \<Rightarrow> t)\<rparr>
                   | None \<Rightarrow>
                      (case find_child ''skipped'' tc of
                         Some skipped_el \<Rightarrow>
                           test_case\<lparr>tc_status := ''skipped'',
                                      tc_message := attr_or skipped_el ''message'' []\<rparr>
                       | None \<Rightarrow> test_case\<lparr>tc_status := ''passed''\<rparr>))))"

definition junit_append :: "runtime \<Rightarrow> TestSummary \<Rightarrow> xml \<Rightarrow> error + TestSummary" where
  "junit_append rt summary tc =
     and_then (junit_case rt tc) (\<lambda>test_case.
       Inr (summary\<lparr>test_cases := test_cases summary @ [test_case]\<rparr>))"

definition junit_suite :: "runtime \<Rightarrow> TestSummary \<Rightarrow> xml \<Rightarrow> error + TestSummary" where
  \<comment> \<open>the body of the loop over the suites\<close>
  "junit_suite rt summary ts =
     and_then (attr_int ts ''tests'') (\<lambda>n_tests.
     and_then (attr_int ts ''failures'') (\<lambda>n_failures.
     and_then (attr_int ts ''errors'') (\<lambda>n_errors.
     and_then (attr_int ts ''skipped'') (\<lambda>n_skipped.
     and_then (attr_float rt ts ''time'') (\<lambda>t.
       fold_err (junit_append rt)
         (summary\<lparr>total := total summary + n_tests,
                   failed := failed summary + n_failures,
                   errors := errors summary + n_errors,
                   skipped := skipped summary + n_skipped,
                   duration := PyFloat (num_val (duration summary) + t)\<rparr>)
         (findall_desc ''testcase'' ts))))))"

definition parse_junit_xml :: "runtime \<Rightarrow> xml loaded \<Rightarrow> error + TestSummary" where
  \<comment> \<open>\<open>parse_junit_xml\<close> on what \<open>ET.parse\<close> made of the file\<close>
  "parse_junit_xml rt file =
     (case file of
        Unreadable m \<Rightarrow> Inl (OSError m)
      | Malformed cause \<Rightarrow> Inl (ValueError (''Failed to parse JUnit XML: '' @ cause))
      | Loaded root_el \<Rightarrow>
          let testsuites = (if tag root_el = ''testsuites'' then findall_desc ''testsuite'' root_el
                            else if tag root_el = ''testsuite'' then [root_el]
                            else [])
          in and_then (fold_err (junit_suite rt) (new_summary ''junit'') testsuites) (\<lambda>summary.
               Inr (summary\<lparr>passed := total summary - failed summary - errors summary
                                       - skipped summary\<rparr>)))"

section \<open>pytest JSON parser\<close>

text \<open>
  A decoded JSON document, as \<open>json.load\<close> returns it: \<open>None\<close>, a \<open>bool\<close>, an \<open>int\<close>, a
  finite \<open>float\<close>, a \<open>str\<close>, a \<open>list\<close>, or a \<open>dict\<close> with its items in order and its keys
  distinct.
\<close>

datatype json =
    JNull
  | JBool bool
  | JInt int
  | JFloat rat
  | JStr string
  | JArr "json list"
  | JObj "(string \<times> json) list"

text \<open>
  The parser copies values of the document into the summary without looking at their
  types, so in its result every field it fills from the document holds a JSON value.
\<close>

record DynCase =
  dc_name :: json
  dc_classname :: string
  dc_status :: json
  dc_duration :: json
  dc_message :: string
  dc_output :: json

record DynSummary =
  ds_title :: string
  ds_passed :: json
  ds_failed :: json
  ds_skipped :: json
  ds_errors :: json
  ds_total :: json
  ds_duration :: json
  ds_test_cases :: "DynCase list"
  ds_raw_output :: string
  ds_format_detected :: string
  ds_timestamp :: string

fun json_of_number :: "number \<Rightarrow> json" where
  "json_of_number (PyInt i) = JInt i"
| "json_of_number (PyFloat x) = JFloat x"

definition dyn_case :: "TestCase \<Rightarrow> DynCase" where
  "dyn_case c = \<lparr>dc_name = JStr (tc_name c), dc_classname = tc_classname c,
                 dc_status = JStr (tc_status c), dc_duration = json_of_number (tc_duration c),
                 dc_message = tc_message c, dc_output = JStr (tc_output c)\<rparr>"

definition dyn_summary :: "TestSummary \<Rightarrow> DynSummary" where
  \<comment> \<open>a summary whose fields have their declared types, seen as one with JSON values\<close>
  "dyn_summary s =
     \<lparr>ds_title = title s, ds_passed = JInt (passed s), ds_failed = JInt (failed s),
      ds_skipped = JInt (skipped s), ds_errors = JInt (errors s), ds_total = JInt (total s),
      ds_duration = json_of_number (duration s), ds_test_cases = map dyn_case (test_cases s),
      ds_raw_output = raw_output s, ds_format_detected = format_detected s,
      ds_timestamp = timestamp s\<rparr>"

fun str_in :: "string \<Rightarrow> json \<Rightarrow> error + bool" where
  \<comment> \<open>\<open>k in v\<close> for a string \<open>k\<close>: a key of a dict, an element of a list, a part of a
      string; any other value is not a container and the test raises \<open>TypeError\<close>\<close>
  "str_in k (JObj kvs) = Inr (map_of kvs k \<noteq> None)"
| "str_in k (JArr xs) = Inr (JStr k \<in> set xs)"
| "str_in k (JStr t) = Inr (contains k t)"
| "str_in k v = Inl (TypeError ''argument is not iterable'')"

fun subscript :: "json \<Rightarrow> string \<Rightarrow> error + json" where
  \<comment> \<open>\<open>v[k]\<close> for a string \<open>k\<close>\<close>
  "subscript (JObj kvs) k = (case map_of kvs k of None \<Rightarrow> Inl (KeyError k) | Some x \<Rightarrow> Inr x)"
| "subscript v k = Inl (TypeError ''indices must be integers, or the value is not subscriptable'')"

fun dict_get :: "json \<Rightarrow> string \<Rightarrow> json \<Rightarrow> error + json" where
  \<comment> \<open>\<open>v.get(k, default)\<close>: only a dict has the method\<close>
  "dict_get (JObj kvs) k d = Inr (case map_of kvs k of None \<Rightarrow> d | Some x \<Rightarrow> x)"
| "dict_get v k d = Inl (AttributeError ''get'')"

fun iterate :: "json \<Rightarrow> error + json list" where
  \<comment> \<open>the values a \<open>for\<close> loop over \<open>v\<close> visits\<close>
  "iterate (JArr xs) = Inr xs"
| "iterate (JObj kvs) = Inr (map (\<lambda>kv. JStr (fst kv)) kvs)"
| "iterate (JStr t) = Inr (map (\<lambda>c. JStr [c]) t)"
| "iterate v = Inl (TypeError ''object is not iterable'')"

fun truthy :: "json \<Rightarrow> bool" where
  "truthy JNull = False"
| "truthy (JBool b) = b"
| "truthy (JInt i) = (i \<noteq> 0)"
| "truthy (JFloat x) = (x \<noteq> 0)"
| "truthy (JStr t) = (t \<noteq> [])"
| "truthy (JArr xs) = (xs \<noteq> [])"
| "truthy (JObj kvs) = (kvs \<noteq> [])"

definition pytest_case :: "json \<Rightarrow> error + DynCase" where
  \<comment> \<open>the body of the loop over \<open>data["tests"]\<close>, up to the \<open>append\<close>\<close>
  "pytest_case test =
     and_then (dict_get test ''nodeid'' (JStr ''unknown'')) (\<lambda>nodeid.
     and_then (dict_get test ''outcome'' (JStr ''unknown'')) (\<lambda>outcome.
     and_then (dict_get test ''duration'' (JInt 0)) (\<lambda>dur.
       let test_case = \<lparr>dc_name = nodeid, dc_classname = [], dc_status = outcome,
                         dc_duration = dur, dc_message = [], dc_output = JStr []\<rparr>
       in and_then (str_in ''call'' test) (\<lambda>has_call.
            if has_call then
              and_then (subscript test ''call'') (\<lambda>call.
              and_then (dict_get call ''longrepr'' JNull) (\<lambda>longrepr.
                if truthy longrepr
                then and_then (subscript call ''longrepr'') (\<lambda>v. Inr (test_case\<lparr>dc_output := v\<rparr>))
                else Inr test_case))
            else Inr test_case))))"

definition pytest_append :: "DynSummary \<Rightarrow> json \<Rightarrow> error + DynSummary" where
  "pytest_append summary test =
     and_then (pytest_case test) (\<lambda>test_case.
       Inr (summary\<lparr>ds_test_cases := ds_test_cases summary @ [test_case]\<rparr>))"

definition pytest_entry :: "TestSummary \<Rightarrow> json \<Rightarrow> error + TestSummary" where
  \<comment> \<open>the body of the loop over the entries of a report log\<close>
  "pytest_entry summary entry =
     and_then (dict_get entry ''$report_type'' JNull) (\<lambda>report_type.
       if report_type = JStr ''TestReport'' then
         and_then (dict_get entry ''outcome'' (JStr [])) (\<lambda>outcome.
           Inr (if outcome = JStr ''passed'' then summary\<lparr>passed := passed summary + 1\<rparr>
                else if outcome = JStr ''failed'' then summary\<lparr>failed := failed summary + 1\<rparr>
                else if outcome = JStr ''skipped'' then summary\<lparr>skipped := skipped summary + 1\<rparr>
                else summary))
       else Inr summary)"

definition is_list :: "json \<Rightarrow> bool" where
  \<comment> \<open>\<open>isinstance(v, list)\<close>\<close>
  "is_list v = (case v of JArr xs \<Rightarrow> True | _ \<Rightarrow> False)"

definition parse_pytest_json :: "json loaded \<Rightarrow> error + DynSummary" where
  \<comment> \<open>\<open>parse_pytest_json\<close> on what \<open>open\<close> and \<open>json.load\<close> made of the file; only a
      \<open>JSONDecodeError\<close> is caught and raised again as a \<open>ValueError\<close>\<close>
  "parse_pytest_json file =
     (case file of
        Unreadable m \<Rightarrow> Inl (OSError m)
      | Malformed cause \<Rightarrow> Inl (ValueError (''Failed to parse pytest JSON: '' @ cause))
      | Loaded data \<Rightarrow>
          let summary = new_summary ''pytest-json''
          in and_then (str_in ''summary'' data) (\<lambda>has_summary.
               if has_summary then
                 and_then (subscript data ''summary'') (\<lambda>s.
                 and_then (dict_get s ''passed'' (JInt 0)) (\<lambda>n_passed.
                 and_then (dict_get s ''failed'' (JInt 0)) (\<lambda>n_failed.
                 and_then (dict_get s ''skipped'' (JInt 0)) (\<lambda>n_skipped.
                 and_then (dict_get s ''error'' (JInt 0)) (\<lambda>n_errors.
                 and_then (dict_get s ''total'' (JInt 0)) (\<lambda>n_total.
                 and_then (dict_get data ''duration'' (JInt 0)) (\<lambda>dur.
                 and_then (dict_get data ''tests'' (JArr [])) (\<lambda>tests.
                 and_then (iterate tests) (\<lambda>ts.
                   fold_err pytest_append
                     ((dyn_summary summary)
                        \<lparr>ds_passed := n_passed, ds_failed := n_failed, ds_skipped := n_skipped,
                         ds_errors := n_errors, ds_total := n_total, ds_duration := dur\<rparr>)
                     ts)))))))))
               else if is_list data then
                 and_then (iterate data) (\<lambda>entries.
                 and_then (fold_err pytest_entry summary entries) (\<lambda>summary1.
                   Inr (dyn_summary (calculate_totals summary1))))
               else Inr (dyn_summary summary)))"

section \<open>Go test parser\<close>

definition go_at :: "string \<Rightarrow> ((string \<times> string \<times> string) \<times> string) option" where
  \<comment> \<open>\<open>--- (PASS|FAIL|SKIP): (\S+) \(([0-9.]+)s\)\<close> at one position: the three groups and
      the text after the match\<close>
  "go_at s =
     do { r \<leftarrow> match_lit ''--- '' s;
          (g1, r1) \<leftarrow> first_of [''PASS'', ''FAIL'', ''SKIP''] r;
          r2 \<leftarrow> match_lit '': '' r1;
          (g2, r3) \<leftarrow> run1 (\<lambda>c. \<not> is_space c) r2;
          r4 \<leftarrow> match_lit '' ('' r3;
          (g3, r5) \<leftarrow> run1 is_num_char r4;
          r6 \<leftarrow> match_lit ''s)'' r5;
          Some ((g1, g2, g3), r6) }"

lemma go_at_shorter:
  assumes "go_at s = Some (g, r)"
  shows "length r < length s"
proof -
  from assms obtain r0 g1 r1 r2 g2 r3 r4 g3 r5 where
    a: "match_lit ''--- '' s = Some r0" and b: "first_of [''PASS'', ''FAIL'', ''SKIP''] r0 = Some (g1, r1)"
    and c: "match_lit '': '' r1 = Some r2" and d: "run1 (\<lambda>c. \<not> is_space c) r2 = Some (g2, r3)"
    and e: "match_lit '' ('' r3 = Some r4" and f: "run1 is_num_char r4 = Some (g3, r5)"
    and g: "match_lit ''s)'' r5 = Some r"
    by (auto simp: go_at_def split: Option.bind_splits)
  from match_lit_length [OF a] match_lit_length [OF c] match_lit_length [OF e]
    match_lit_length [OF g] first_of_shorter [OF b] run1_length [OF d] run1_length [OF f]
  show ?thesis by simp
qed

function go_results :: "string \<Rightarrow> (string \<times> string \<times> string) list" where
  \<comment> \<open>\<open>re.finditer\<close> of the result pattern\<close>
  "go_results [] = []"
| "go_results (c # cs) =
     (case go_at (c # cs) of
        Some (g, r) \<Rightarrow> g # go_results r
      | None \<Rightarrow> go_results cs)"
  by pat_completeness auto
termination
  by (relation "measure length") (auto dest: go_at_shorter)

definition go_case :: "runtime \<Rightarrow> TestSummary \<Rightarrow> string \<times> string \<times> string \<Rightarrow> error + TestSummary" where
  \<comment> \<open>the body of the loop over the matches\<close>
  "go_case rt summary m =
     (case m of (g1, g2, g3) \<Rightarrow>
        let status0 = (if g1 = ''PASS'' then ''passed''
                       else if g1 = ''FAIL'' then ''failed''
                       else if g1 = ''SKIP'' then ''skipped''
                       else ''unknown'')
        in and_then (py_float rt g3) (\<lambda>d.
             let test_case = (new_case g2)\<lparr>tc_status := status0, tc_duration := PyFloat d\<rparr>;
                 summary1 =
                   (if status0 = ''passed'' then summary\<lparr>passed := passed summary + 1\<rparr>
                    else if status0 = ''failed'' then summary\<lparr>failed := failed summary + 1\<rparr>
                    else if status0 = ''skipped'' then summary\<lparr>skipped := skipped summary + 1\<rparr>
                    else summary)
             in Inr (summary1\<lparr>test_cases := test_cases summary1 @ [test_case]\<rparr>)))"

definition go_time_at :: "bool \<Rightarrow> string \<Rightarrow> string option" where
  \<comment> \<open>\<open>(?:ok|FAIL)\s+\S+\s+([0-9.]+)s\<close> at one position: group 1\<close>
  "go_time_at bol s =
     do { (w, r) \<leftarrow> first_of [''ok'', ''FAIL''] s;
          (ws, r1) \<leftarrow> run1 is_space r;
          (pkg, r2) \<leftarrow> run1 (\<lambda>c. \<not> is_space c) r1;
          (ws', r3) \<leftarrow> run1 is_space r2;
          (g, r4) \<leftarrow> run1 is_num_char r3;
          _ \<leftarrow> match_lit ''s'' r4;
          Some g }"

definition parse_go_test :: "runtime \<Rightarrow> string \<Rightarrow> error + TestSummary" where
  \<comment> \<open>\<open>parse_go_test\<close> on the text read from the file\<close>
  "parse_go_test rt content =
     and_then (fold_err (go_case rt) ((new_summary ''go'')\<lparr>raw_output := content\<rparr>)
                 (go_results content)) (\<lambda>summary.
     and_then (case search go_time_at True content of
                 Some g \<Rightarrow> map_sum id (\<lambda>x. summary\<lparr>duration := PyFloat x\<rparr>) (py_float rt g)
               | None \<Rightarrow> Inr summary) (\<lambda>summary1.
       Inr (calculate_totals summary1)))"

section \<open>Generic text parser\<close>

definition first_of_ci :: "string list \<Rightarrow> string \<Rightarrow> (string \<times> string) option" where
  \<comment> \<open>an alternation of lower-case literals under \<open>re.IGNORECASE\<close>\<close>
  "first_of_ci alts s =
     (case filter (\<lambda>a. match_ci a s \<noteq> None) alts of
        [] \<Rightarrow> None
      | a # _ \<Rightarrow> map_option (Pair a) (match_ci a s))"

definition tests_word :: "string \<Rightarrow> string option" where
  \<comment> \<open>\<open>tests?\s+\<close>\<close>
  "tests_word s =
     do { r \<leftarrow> match_ci ''test'' s;
          (ws, r') \<leftarrow> run1 is_space (case r of [] \<Rightarrow> [] | c # cs \<Rightarrow> if lower c = CHR ''s'' then cs else r);
          Some r' }"

definition counted_at :: "string \<Rightarrow> bool \<Rightarrow> string \<Rightarrow> string option" where
  \<comment> \<open>\<open>(\d+)\s+(?:tests?\s+)?word\<close> at one position, ignoring case: group 1\<close>
  "counted_at word bol s =
     do { (ds, r) \<leftarrow> run1 is_digit s;
          (ws, r1) \<leftarrow> run1 is_space r;
          _ \<leftarrow> match_ci word (case tests_word r1 of Some r2 \<Rightarrow> r2 | None \<Rightarrow> r1);
          Some ds }"

definition labelled_at :: "string \<Rightarrow> bool \<Rightarrow> string \<Rightarrow> string option" where
  \<comment> \<open>\<open>word:\s*(\d+)\<close> at one position, ignoring case: group 1\<close>
  "labelled_at word bol s =
     do { r \<leftarrow> match_ci (word @ '':'') s;
          (ds, r') \<leftarrow> run1 is_digit (dropWhile is_space r);
          Some ds }"

definition took_at :: "bool \<Rightarrow> string \<Rightarrow> string option" where
  \<comment> \<open>\<open>(?:time|duration|took):\s*([0-9.]+)\s*s\<close> at one position, ignoring case: group 1\<close>
  "took_at bol s =
     do { (w, r) \<leftarrow> first_of_ci [''time'', ''duration'', ''took''] s;
          r1 \<leftarrow> match_lit '':'' r;
          (g, r2) \<leftarrow> run1 is_num_char (dropWhile is_space r1);
          _ \<leftarrow> match_ci ''s'' (dropWhile is_space r2);
          Some g }"

definition set_found :: "(bool \<Rightarrow> string \<Rightarrow> string option) \<Rightarrow> string \<Rightarrow>
    (int \<Rightarrow> TestSummary \<Rightarrow> TestSummary) \<Rightarrow> TestSummary \<Rightarrow> TestSummary" where
  \<comment> \<open>one round of the loop over the patterns: \<open>setattr\<close> when the pattern is found\<close>
  "set_found pat content upd summary =
     (case search pat True content of
        Some ds \<Rightarrow> upd (int (nat_of_digits ds)) summary
      | None \<Rightarrow> summary)"

definition parse_generic :: "runtime \<Rightarrow> string \<Rightarrow> error + TestSummary" where
  \<comment> \<open>\<open>parse_generic\<close> on the text read from the file; the patterns in their order\<close>
  "parse_generic rt content =
     (let summary0 = (new_summary ''generic'')\<lparr>raw_output := content\<rparr>;
          summary1 = set_found (counted_at ''passed'') content (\<lambda>n s. s\<lparr>passed := n\<rparr>) summary0;
          summary2 = set_found (counted_at ''failed'') content (\<lambda>n s. s\<lparr>failed := n\<rparr>) summary1;
          summary3 = set_found (counted_at ''skipped'') content (\<lambda>n s. s\<lparr>skipped := n\<rparr>) summary2;
          summary4 = set_found (counted_at ''error'') content (\<lambda>n s. s\<lparr>errors := n\<rparr>) summary3;
          summary5 = set_found (labelled_at ''passed'') content (\<lambda>n s. s\<lparr>passed := n\<rparr>) summary4;
          summary6 = set_found (labelled_at ''failed'') content (\<lambda>n s. s\<lparr>failed := n\<rparr>) summary5;
          summary7 = set_found (labelled_at ''skipped'') content (\<lambda>n s. s\<lparr>skipped := n\<rparr>) summary6;
          summary8 = (case search (counted_at ''total'') True content of
                        Some ds \<Rightarrow> summary7\<lparr>total := int (nat_of_digits ds)\<rparr>
                      | None \<Rightarrow> calculate_totals summary7)
      in case search took_at True content of
           Some g \<Rightarrow> map_sum id (\<lambda>x. summary8\<lparr>duration := PyFloat x\<rparr>) (py_float rt g)
         | None \<Rightarrow> Inr summary8)"

section \<open>Files, format detection and dispatch\<close>

text \<open>
  What the script finds outside itself: which paths exist, the text of a file (\<open>None\<close>
  when opening or reading it raises), what the XML and JSON libraries make of a file, the
  environment variables, the clock, and which paths can be written.
\<close>

record world =
  path_exists :: "string \<Rightarrow> bool"
  read_text :: "string \<Rightarrow> string option"
  load_xml :: "string \<Rightarrow> xml loaded"
  load_json :: "string \<Rightarrow> json loaded"
  environ :: "string \<Rightarrow> string option"
  now_iso :: string
  can_write :: "string \<Rightarrow> bool"

definition path_name :: "string \<Rightarrow> string" where
  \<comment> \<open>\<open>Path(p).name\<close> for a POSIX path: the last component, empty and \<open>.\<close> components
      dropped\<close>
  "path_name p =
     (case filter (\<lambda>c. c \<noteq> [] \<and> c \<noteq> ''.'') (split_on CHR ''/'' p) of
        [] \<Rightarrow> []
      | c # cs \<Rightarrow> last (c # cs))"

definition path_suffix :: "string \<Rightarrow> string" where
  \<comment> \<open>\<open>Path(p).suffix\<close> (Python 3.8 to 3.13): the name from its last dot on, when that dot
      is neither the first nor the last character of the name\<close>
  "path_suffix p =
     (let name = path_name p;
          ext = rev (takeWhile (\<lambda>c. c \<noteq> CHR ''.'') (rev name))
      in if CHR ''.'' \<in> set name \<and> ext \<noteq> [] \<and> length ext + 1 < length name
         then CHR ''.'' # ext
         else [])"

fun take_lines :: "nat \<Rightarrow> string \<Rightarrow> string" where
  \<comment> \<open>what \<open>n\<close> calls of \<open>readline\<close> return, joined\<close>
  "take_lines 0 s = []"
| "take_lines (Suc n) [] = []"
| "take_lines (Suc n) (c # cs) = c # (if c = nl then take_lines n cs else take_lines (Suc n) cs)"

definition sniff :: "string \<Rightarrow> string" where
  \<comment> \<open>the content rules of \<open>detect_format\<close>, on the first lines of the file\<close>
  "sniff first_lines =
     (if match_lit ''<?xml'' (strip first_lines) \<noteq> None then ''junit''
      else if match_lit ''{'' (strip first_lines) \<noteq> None then ''pytest-json''
      else if contains ''=== RUN'' first_lines \<or> contains ''--- PASS'' first_lines then ''go''
      else if contains ''Tests:'' first_lines \<or> contains ''PASS '' first_lines then ''npm''
      else if search plan_at True first_lines \<noteq> None then ''tap''
      else ''generic'')"

definition detect_format :: "world \<Rightarrow> string \<Rightarrow> string" where
  "detect_format w file_path =
     (if path_suffix file_path = ''.xml'' then ''junit''
      else if path_suffix file_path = ''.json'' then
        (case read_text w file_path of
           Some content \<Rightarrow> if contains (CHR 0x22 # ''summary'' @ [CHR 0x22]) (take 1000 content) then ''pytest-json''
                            else ''pytest-json''
         | None \<Rightarrow> ''pytest-json'')
      else (case read_text w file_path of
              Some content \<Rightarrow> sniff (take_lines 10 content)
            | None \<Rightarrow> ''generic''))"

datatype parsed = Typed TestSummary | Untyped DynSummary

definition parse_text ::
  "world \<Rightarrow> string \<Rightarrow> (string \<Rightarrow> error + TestSummary) \<Rightarrow> error + parsed" where
  \<comment> \<open>a text parser on a path: \<open>open\<close> and \<open>read\<close>, then the parser proper\<close>
  "parse_text w file_path parser =
     (case read_text w file_path of
        None \<Rightarrow> Inl (OSError file_path)
      | Some content \<Rightarrow> map_sum id Typed (parser content))"

definition parse_results :: "runtime \<Rightarrow> world \<Rightarrow> string \<Rightarrow> string \<Rightarrow> error + parsed" where
  "parse_results rt w file_path format_type =
     (if \<not> path_exists w file_path
      then Inl (FileNotFoundError (''Results file not found: '' @ file_path))
      else let format_type1 = (if format_type = ''auto'' then detect_format w file_path
                               else format_type)
           in if format_type1 = ''junit''
                then map_sum id Typed (parse_junit_xml rt (load_xml w file_path))
              else if format_type1 = ''pytest-json''
                then map_sum id Untyped (parse_pytest_json (load_json w file_path))
              else if format_type1 = ''go'' then parse_text w file_path (parse_go_test rt)
              else if format_type1 = ''npm'' then parse_text w file_path (parse_npm_test rt)
              else if format_type1 = ''tap'' then parse_text w file_path (\<lambda>c. Inr (parse_tap c))
              else parse_text w file_path (parse_generic rt))"

section \<open>Markdown renderer\<close>

definition SAFE_SUMMARY_SIZE :: nat where
  "SAFE_SUMMARY_SIZE = 1000000"

definition utf8_len :: "string \<Rightarrow> nat" where
  \<comment> \<open>\<open>len(s.encode("utf-8"))\<close>\<close>
  "utf8_len s = sum_list (map (\<lambda>c. if (of_char c :: nat) < 128 then 1 else 2) s)"

definition format_duration :: "runtime \<Rightarrow> number \<Rightarrow> string" where
  "format_duration rt seconds =
     (let x = num_val seconds
      in if x < 1 then fmt_fixed rt 0 (x * 1000) @ ''ms''
         else if x < 60 then fmt_fixed rt 2 x @ ''s''
         else let minutes = \<lfloor>x / 60\<rfloor>;
                  remaining_seconds = x - 60 * of_int \<lfloor>x / 60\<rfloor>
              in str_int minutes @ ''m '' @ fmt_fixed rt 1 remaining_seconds @ ''s'')"

definition truncate_text :: "string \<Rightarrow> int \<Rightarrow> string \<times> bool" where
  "truncate_text txt max_lines =
     (let lines = split_on nl txt
      in if max_lines > 0 \<and> int (length lines) > max_lines
         then (join_nl (take (nat max_lines) lines), True)
         else (txt, False))"

definition qualified_name :: "TestCase \<Rightarrow> string" where
  "qualified_name tc =
     (if tc_classname tc \<noteq> [] then tc_classname tc @ ''::'' @ tc_name tc else tc_name tc)"

definition failed_lines :: "TestCase \<Rightarrow> string list" where
  \<comment> \<open>the lines for one failed test\<close>
  "failed_lines tc =
     (''- :x: `'' @ qualified_name tc @ ''`'')
     # (if tc_message tc \<noteq> []
        then [''  - '' @ (if length (tc_message tc) > 200 then take 200 (tc_message tc) @ ''...''
                          else tc_message tc)]
        else [])"

definition passed_line :: "runtime \<Rightarrow> TestCase \<Rightarrow> string" where
  \<comment> \<open>the line for one passed test\<close>
  "passed_line rt tc =
     ''- :white_check_mark: `'' @ qualified_name tc @ ''`''
     @ (if num_val (tc_duration tc) > 0 then '' ('' @ format_duration rt (tc_duration tc) @ '')''
        else [])"

definition markdown_lines ::
  "runtime \<Rightarrow> TestSummary \<Rightarrow> bool \<Rightarrow> bool \<Rightarrow> int \<Rightarrow> bool \<Rightarrow> string list" where
  \<comment> \<open>the first part of \<open>generate_markdown\<close>: the list \<open>lines\<close> before it is joined\<close>
  "markdown_lines rt summary show_details show_passed max_details_lines include_badge =
     (let failed_cases = filter (\<lambda>tc. tc_status tc = ''failed'' \<or> tc_status tc = ''error'')
                           (test_cases summary);
          passed_cases = filter (\<lambda>tc. tc_status tc = ''passed'') (test_cases summary)
      in [''## '' @ title summary, []]
         @ (if include_badge
            then [''**Status:** '' @
                    (if status summary = ''passed'' then '':white_check_mark: **Passed**''
                     else if status summary = ''failed'' then '':x: **Failed**''
                     else '':grey_question: **Unknown**''), []]
            else [])
         @ (if total summary > 0
            then [''| Metric | Count |'', ''|--------|-------|'',
                  ''| :white_check_mark: Passed | '' @ str_int (passed summary) @ '' |'',
                  ''| :x: Failed | '' @ str_int (failed summary) @ '' |'']
                 @ (if errors summary > 0
                    then [''| :boom: Errors | '' @ str_int (errors summary) @ '' |''] else [])
                 @ (if skipped summary > 0
                    then [''| :fast_forward: Skipped | '' @ str_int (skipped summary) @ '' |'']
                    else [])
                 @ [''| **Total** | **'' @ str_int (total summary) @ ''** |'', []]
                 @ (if num_val (duration summary) > 0
                    then [''**Duration:** '' @ format_duration rt (duration summary), []] else [])
                 @ [''**Pass Rate:** '' @ fmt_fixed rt 1 (pass_rate summary) @ ''%'', []]
                 @ (if format_detected summary \<noteq> ''unknown''
                    then [''*Format: '' @ format_detected summary @ ''*'', []] else [])
            else [''> :warning: No test results found'', []])
         @ (if failed_cases \<noteq> [] \<and> show_details
            then [''### Failed Tests'', []]
                 @ concat (map failed_lines (take 20 failed_cases))
                 @ (if length failed_cases > 20
                    then [''- ... and '' @ str_nat (length failed_cases - 20) @ '' more failures'']
                    else [])
                 @ [[]]
            else [])
         @ (if show_passed \<and> passed_cases \<noteq> []
            then [''### Passed Tests'', []]
                 @ map (passed_line rt) (take 50 passed_cases)
                 @ (if length passed_cases > 50
                    then [''- ... and '' @ str_nat (length passed_cases - 50) @ '' more passed'']
                    else [])
                 @ [[]]
            else [])
         @ (if raw_output summary \<noteq> [] \<and> show_details
            then [''### Output'', [], ''```'',
                  fst (truncate_text (raw_output summary) max_details_lines)]
                 @ (if snd (truncate_text (raw_output summary) max_details_lines)
                    then [nl # ''... (truncated, showing '' @ str_int max_details_lines @ '' of ''
                            @ str_nat (length (split_on nl (raw_output summary))) @ '' lines)'']
                    else [])
                 @ [''```'', []]
            else []))"

fun lines_to_keep :: "nat \<Rightarrow> string list \<Rightarrow> string list" where
  \<comment> \<open>the loop that keeps lines from the top while they fit; the first argument is
      \<open>current_size\<close>\<close>
  "lines_to_keep current_size [] = []"
| "lines_to_keep current_size (line # lines) =
     (let line_size = utf8_len line + 1
      in if current_size + line_size > SAFE_SUMMARY_SIZE - 100 then []
         else line # lines_to_keep (current_size + line_size) lines)"

definition truncation_warning :: string where
  "truncation_warning = ''> :warning: Output truncated due to size limits''"

definition generate_markdown ::
  "runtime \<Rightarrow> TestSummary \<Rightarrow> bool \<Rightarrow> bool \<Rightarrow> int \<Rightarrow> bool \<Rightarrow> string" where
  "generate_markdown rt summary show_details show_passed max_details_lines include_badge =
     (let lines = markdown_lines rt summary show_details show_passed max_details_lines include_badge;
          result = join_nl lines
      in if utf8_len result > SAFE_SUMMARY_SIZE
         then join_nl (lines_to_keep 0 lines @ [[], truncation_warning])
         else result)"

section \<open>Entry point\<close>

record args =
  a_file :: "string option"
  a_format :: string
  a_passed :: "int option"
  a_failed :: "int option"
  a_skipped :: "int option"
  a_errors :: "int option"
  a_duration :: "rat option"
  a_title :: string
  a_show_details :: bool
  a_show_passed :: bool
  a_max_lines :: int
  a_no_badge :: bool
  a_output :: "string option"
  a_github_summary :: bool
  a_github_outputs :: bool
  a_json :: bool

definition default_args :: args where
  \<comment> \<open>what \<open>parse_args\<close> returns for an empty command line\<close>
  "default_args =
     \<lparr>a_file = None, a_format = ''auto'', a_passed = None, a_failed = None, a_skipped = None,
      a_errors = None, a_duration = None, a_title = ''Test Results'', a_show_details = False,
      a_show_passed = False, a_max_lines = 100, a_no_badge = False, a_output = None,
      a_github_summary = False, a_github_outputs = False, a_json = False\<rparr>"

definition present :: "string option \<Rightarrow> bool" where
  \<comment> \<open>the truth value of an optional text: neither \<open>None\<close> nor empty\<close>
  "present v = (case v of None \<Rightarrow> False | Some t \<Rightarrow> t \<noteq> [])"

definition or_zero :: "int option \<Rightarrow> int" where
  \<comment> \<open>\<open>v or 0\<close> for an optional \<open>int\<close>\<close>
  "or_zero v = (case v of None \<Rightarrow> 0 | Some n \<Rightarrow> n)"

definition manual_summary :: "args \<Rightarrow> TestSummary" where
  \<comment> \<open>manual input mode; \<open>args.duration or 0\<close> is the \<open>int\<close> 0 for a missing or zero
      duration\<close>
  "manual_summary a =
     calculate_totals
       ((new_summary ''manual'')
          \<lparr>passed := or_zero (a_passed a), failed := or_zero (a_failed a),
           skipped := or_zero (a_skipped a), errors := or_zero (a_errors a),
           duration := (case a_duration a of
                          None \<Rightarrow> PyInt 0
                        | Some x \<Rightarrow> if x = 0 then PyInt 0 else PyFloat x)\<rparr>)"

fun number_of_json :: "json \<Rightarrow> number option" where
  "number_of_json (JInt i) = Some (PyInt i)"
| "number_of_json (JFloat x) = Some (PyFloat x)"
| "number_of_json v = None"

definition typed_case :: "DynCase \<Rightarrow> TestCase option" where
  \<comment> \<open>a test case of the pytest parser whose fields have the types the dataclass declares\<close>
  "typed_case d =
     (case (dc_name d, dc_status d, number_of_json (dc_duration d), dc_output d) of
        (JStr n, JStr st, Some du, JStr ou) \<Rightarrow>
          Some \<lparr>tc_name = n, tc_classname = dc_classname d, tc_status = st, tc_duration = du,
                tc_message = dc_message d, tc_output = ou\<rparr>
      | _ \<Rightarrow> None)"

definition typed_summary :: "DynSummary \<Rightarrow> TestSummary option" where
  \<comment> \<open>a summary of the pytest parser whose fields have the types the dataclass declares\<close>
  "typed_summary d =
     (case (ds_passed d, ds_failed d, ds_skipped d, ds_errors d, ds_total d,
            number_of_json (ds_duration d), those (map typed_case (ds_test_cases d))) of
        (JInt p, JInt f, JInt k, JInt e, JInt t, Some du, Some cs) \<Rightarrow>
          Some \<lparr>title = ds_title d, passed = p, failed = f, skipped = k, errors = e, total = t,
                duration = du, test_cases = cs, raw_output = ds_raw_output d,
                format_detected = ds_format_detected d, timestamp = ds_timestamp d\<rparr>
      | _ \<Rightarrow> None)"

text \<open>
  The rest of the script is modelled for summaries whose fields have their declared types.
  A pytest document can put any JSON value into a counter; what the script does with such
  a summary is outside the model, and \<open>obtain_summary\<close> and \<open>main\<close> are \<open>None\<close> there.
\<close>

definition obtain_summary :: "runtime \<Rightarrow> world \<Rightarrow> args \<Rightarrow> (error + TestSummary) option" where
  \<comment> \<open>\<open>main\<close>, "parse or construct summary": \<open>Inl\<close> is the exception that \<open>main\<close> catches\<close>
  "obtain_summary rt w a =
     (if present (a_file a)
      then (case parse_results rt w (the (a_file a)) (a_format a) of
              Inl e \<Rightarrow> Some (Inl e)
            | Inr (Typed summary) \<Rightarrow> Some (Inr summary)
            | Inr (Untyped d) \<Rightarrow> map_option Inr (typed_summary d))
      else Some (Inr (manual_summary a)))"

definition case_json :: "TestCase \<Rightarrow> json" where
  "case_json tc =
     JObj [(''name'', JStr (tc_name tc)), (''classname'', JStr (tc_classname tc)),
           (''status'', JStr (tc_status tc)), (''duration'', json_of_number (tc_duration tc)),
           (''message'', JStr (tc_message tc))]"

definition summary_json :: "TestSummary \<Rightarrow> json" where
  \<comment> \<open>the dictionary that \<open>main\<close> hands to \<open>json.dumps\<close>\<close>
  "summary_json summary =
     JObj [(''title'', JStr (title summary)), (''status'', JStr (status summary)),
           (''passed'', JInt (passed summary)), (''failed'', JInt (failed summary)),
           (''skipped'', JInt (skipped summary)), (''errors'', JInt (errors summary)),
           (''total'', JInt (total summary)), (''duration'', json_of_number (duration summary)),
           (''pass_rate'', JFloat (pass_rate summary)),
           (''format'', JStr (format_detected summary)),
           (''timestamp'', JStr (timestamp summary)),
           (''test_cases'', JArr (map case_json (test_cases summary)))]"

datatype printed = Text string | Json json

text \<open>
  What one run leaves behind: the value \<open>main\<close> returns, or the exception that escapes it;
  the calls of \<open>print\<close> (a text, or the JSON document that \<open>json.dumps\<close> lays out with
  indent 2); the texts written to the error stream; and the files written, each with its
  path, its mode and the text.
\<close>

record run =
  result :: "error + int"
  stdout :: "printed list"
  stderr :: "string list"
  written :: "(string \<times> string \<times> string) list"

definition str_number :: "runtime \<Rightarrow> number \<Rightarrow> string" where
  \<comment> \<open>\<open>f"{x}"\<close>\<close>
  "str_number rt x = (case x of PyInt i \<Rightarrow> str_int i | PyFloat y \<Rightarrow> str_float rt y)"

definition github_outputs_text :: "runtime \<Rightarrow> TestSummary \<Rightarrow> string" where
  \<comment> \<open>the seven lines of \<open>write_github_outputs\<close>\<close>
  "github_outputs_text rt summary =
     ''status='' @ status summary @ [nl]
     @ ''passed='' @ str_int (passed summary) @ [nl]
     @ ''failed='' @ str_int (failed summary) @ [nl]
     @ ''skipped='' @ str_int (skipped summary) @ [nl]
     @ ''total='' @ str_int (total summary) @ [nl]
     @ ''duration='' @ str_number rt (duration summary) @ [nl]
     @ ''pass_rate='' @ fmt_fixed rt 1 (pass_rate summary) @ [nl]"

definition append_to_env_file :: "world \<Rightarrow> string \<Rightarrow> string \<Rightarrow> error + (string \<times> string \<times> string) list" where
  \<comment> \<open>\<open>write_step_summary\<close> and \<open>write_github_outputs\<close>: append to the file an environment
      variable names, when it names one\<close>
  "append_to_env_file w var txt =
     (if present (environ w var)
      then (if can_write w (the (environ w var))
            then Inr [(the (environ w var), ''a'', txt)]
            else Inl (OSError (the (environ w var))))
      else Inr [])"

definition emit_markdown :: "world \<Rightarrow> args \<Rightarrow> string \<Rightarrow> error + printed list \<times> (string \<times> string \<times> string) list" where
  \<comment> \<open>\<open>main\<close>, "output destinations"\<close>
  "emit_markdown w a markdown =
     (if present (a_output a)
      then (if can_write w (the (a_output a))
            then Inr ([], [(the (a_output a), ''w'', markdown)])
            else Inl (OSError (the (a_output a))))
      else if a_github_summary a \<or> present (environ w ''GITHUB_STEP_SUMMARY'')
      then map_sum id (Pair []) (append_to_env_file w ''GITHUB_STEP_SUMMARY'' (markdown @ [nl]))
      else Inr ([Text markdown], []))"

definition report :: "runtime \<Rightarrow> world \<Rightarrow> args \<Rightarrow> TestSummary \<Rightarrow> run" where
  \<comment> \<open>\<open>main\<close> from the point where it has a summary\<close>
  "report rt w a summary0 =
     (let summary = summary0\<lparr>title := a_title a, timestamp := now_iso w\<rparr>;
          code = (if status summary \<noteq> ''failed'' then 0 else 1)
      in if a_json a
         then \<lparr>result = Inr code, stdout = [Json (summary_json summary)], stderr = [],
               written = []\<rparr>
         else
           let markdown = generate_markdown rt summary (a_show_details a) (a_show_passed a)
                            (a_max_lines a) (\<not> a_no_badge a)
           in case emit_markdown w a markdown of
                Inl e \<Rightarrow> \<lparr>result = Inl e, stdout = [], stderr = [], written = []\<rparr>
              | Inr (out, files) \<Rightarrow>
                  if a_github_outputs a \<or> present (environ w ''GITHUB_OUTPUT'')
                  then (case append_to_env_file w ''GITHUB_OUTPUT'' (github_outputs_text rt summary) of
                          Inl e \<Rightarrow> \<lparr>result = Inl e, stdout = out, stderr = [], written = files\<rparr>
                        | Inr files' \<Rightarrow>
                            \<lparr>result = Inr code, stdout = out, stderr = [],
                             written = files @ files'\<rparr>)
                  else \<lparr>result = Inr code, stdout = out, stderr = [], written = files\<rparr>)"

definition main :: "runtime \<Rightarrow> world \<Rightarrow> args \<Rightarrow> run option" where
  "main rt w a =
     (case obtain_summary rt w a of
        None \<Rightarrow> None
      | Some (Inl e) \<Rightarrow>
          Some \<lparr>result = Inr 1, stdout = [],
                stderr = [''Error parsing results: '' @ message e @ [nl]], written = []\<rparr>
      | Some (Inr summary) \<Rightarrow> Some (report rt w a summary))"

section \<open>A runtime for the examples\<close>

definition dec_float :: "string \<Rightarrow> rat option" where
  \<comment> \<open>\<open>float(s)\<close> for a text of digits and dots, with its exact value: at most one dot and
      at least one digit, or \<open>ValueError\<close>\<close>
  "dec_float s =
     (let a = takeWhile is_digit s; r = dropWhile is_digit s
      in case r of
           [] \<Rightarrow> if a = [] then None else Some (of_nat (nat_of_digits a))
         | c # b \<Rightarrow>
             if c = CHR ''.'' \<and> list_all is_digit b \<and> (a \<noteq> [] \<or> b \<noteq> [])
             then Some (of_nat (nat_of_digits (a @ b)) / 10 ^ length b)
             else None)"

definition example_runtime :: runtime where
  \<comment> \<open>the runtime of the worked examples, none of which prints a float: floats are read by
      \<open>dec_float\<close> and printed as their integer part\<close>
  "example_runtime =
     \<lparr>float_of_str = dec_float,
      fmt_fixed = (\<lambda>n x. str_int \<lfloor>x\<rfloor>),
      str_float = (\<lambda>x. str_int \<lfloor>x\<rfloor>)\<rparr>"

definition case_of :: "runtime \<Rightarrow> xml \<Rightarrow> TestCase" where
  \<comment> \<open>the test case that \<open>junit_case\<close> builds from an element, when it builds one\<close>
  "case_of rt tc = projr (junit_case rt tc)"

definition junit_example :: xml where
  \<comment> \<open>a suite announcing three tests, with two \<open>testcase\<close> elements\<close>
  "junit_example =
     Element ''testsuite'' [(''tests'', ''3''), (''failures'', ''1''), (''skipped'', ''1'')] None
       [Element ''testcase'' [(''name'', ''a'')] None
          [Element ''failure'' [(''message'', ''boom'')] (Some ''trace'') []],
        Element ''testcase'' [(''name'', ''b'')] None
          [Element ''skipped'' [] None []]]"

definition junit_inner_example :: xml where
  "junit_inner_example =
     Element ''testsuite'' [(''name'', ''inner''), (''tests'', ''1'')] None
       [Element ''testcase'' [(''name'', ''b'')] None []]"

definition junit_outer_example :: xml where
  "junit_outer_example =
     Element ''testsuite'' [(''name'', ''outer''), (''tests'', ''2'')] None
       [Element ''testcase'' [(''name'', ''a'')] None [], junit_inner_example]"

definition junit_nested_example :: xml where
  \<comment> \<open>a suite nested inside another suite, under a \<open>testsuites\<close> root\<close>
  "junit_nested_example = Element ''testsuites'' [] None [junit_outer_example]"

definition example_world :: world where
  \<comment> \<open>the surroundings of the worked examples: three files and an empty environment\<close>
  "example_world =
     \<lparr>path_exists = (\<lambda>p. p = ''reports/.xml'' \<or> p = ''results.xml'' \<or> p = ''five.json''),
      read_text = (\<lambda>p. if p = ''reports/.xml'' then Some ''plain text''
                        else if p = ''results.xml'' then Some ''1..2''
                        else if p = ''five.json'' then Some ''5''
                        else None),
      load_xml = (\<lambda>p. Malformed ''syntax error: line 1, column 0''),
      load_json = (\<lambda>p. if p = ''five.json'' then Loaded (JInt 5)
                        else Malformed ''Expecting value: line 1 column 1 (char 0)''),
      environ = (\<lambda>k. None),
      now_iso = ''2024-01-01T00:00:00'',
      can_write = (\<lambda>p. True)\<rparr>"

definition weight :: "string list \<Rightarrow> nat" where
  \<comment> \<open>the bytes of some lines, each with the newline after it\<close>
  "weight ls = sum_list (map (\<lambda>l. utf8_len l + 1) ls)"

definition filler_output :: string where
  \<comment> \<open>2,000,000 characters of filler\<close>
  "filler_output = replicate 2000000 (CHR ''x'')"

definition oversized_summary :: TestSummary where
  "oversized_summary = (new_summary ''generic'')\<lparr>raw_output := filler_output, total := 1\<rparr>"

definition forget_output :: "TestCase \<Rightarrow> TestCase" where
  \<comment> \<open>a test case without its \<open>output\<close>\<close>
  "forget_output tc = tc\<lparr>tc_output := []\<rparr>"

definition forget_outputs :: "TestSummary \<Rightarrow> TestSummary" where
  \<comment> \<open>a summary without its \<open>raw_output\<close> and without the \<open>output\<close> of its test cases\<close>
  "forget_outputs s = s\<lparr>raw_output := [], test_cases := map forget_output (test_cases s)\<rparr>"

fun keys_of :: "json \<Rightarrow> string list" where
  \<comment> \<open>the keys of an object, in order\<close>
  "keys_of (JObj kvs) = map fst kvs"
| "keys_of v = []"

definition json_example :: TestSummary where
  \<comment> \<open>a summary with captured text and a test case with diagnostic output\<close>
  "json_example =
     (new_summary ''junit'')
       \<lparr>passed := 1, total := 1, raw_output := ''captured log'',
        test_cases := [(new_case ''t'')\<lparr>tc_output := ''trace''\<rparr>]\<rparr>"

definition junit_inconsistent_example :: xml where
  \<comment> \<open>a suite whose attributes announce more failures than tests\<close>
  "junit_inconsistent_example =
     Element ''testsuite'' [(''tests'', ''1''), (''failures'', ''2'')] None []"

section \<open>Derived fields\<close>

lemma tap_case_total: "total (tap_case s m) = total s"
  by (cases m) (simp add: tap_case_def Let_def split: prod.splits)

lemma foldl_tap_case_total: "total (foldl tap_case s ms) = total s"
  by (induction ms arbitrary: s) (simp_all add: tap_case_total)

lemma calculate_totals_counters:
  "passed (calculate_totals s) = passed s" "failed (calculate_totals s) = failed s"
  "skipped (calculate_totals s) = skipped s" "errors (calculate_totals s) = errors s"
  by (simp_all add: calculate_totals_def)

lemma calculate_totals_total:
  "total (calculate_totals s) =
     (if total s = 0 then passed s + failed s + skipped s + errors s else total s)"
  by (simp add: calculate_totals_def)




section \<open>The plan line of a TAP text\<close>

text \<open>
  C3 (as stated, refuted). The claim makes the plan count authoritative whenever a plan
  line is found. \<open>calculate_totals\<close> runs after every parse and takes \<open>total = 0\<close> to mean
  "not set", so the plan line \<open>1..0\<close> followed by one result gives \<open>total = 1\<close>, the sum
  of the counters, not the plan count 0.
\<close>

theorem tap_plan_zero_counterexample:
  "search plan_at True ''1..0\<newline>ok 1 - a\<newline>'' = Some ''0''
   \<and> total (parse_tap ''1..0\<newline>ok 1 - a\<newline>'') = 1"
  by code_simp

text \<open>
  C3 (amended). When a plan line is found and its count is not 0, \<open>total\<close> is the plan
  count and the sum of the counters does not replace it; when no plan line is found or the
  plan count is 0, \<open>total\<close> is the sum of the passed, failed, skipped and errors counters.
\<close>

theorem tap_plan_total:
  "total (parse_tap content) =
     (case search plan_at True content of
        Some ds \<Rightarrow>
          if nat_of_digits ds \<noteq> 0 then int (nat_of_digits ds)
          else passed (parse_tap content) + failed (parse_tap content)
               + skipped (parse_tap content) + errors (parse_tap content)
      | None \<Rightarrow> passed (parse_tap content) + failed (parse_tap content)
                + skipped (parse_tap content) + errors (parse_tap content))"
  by (simp add: parse_tap_def Let_def calculate_totals_total calculate_totals_counters
        foldl_tap_case_total new_summary_def split: option.splits)

theorem tap_plan_total_witness:
  "search plan_at True ''1..3\<newline>ok 1 - a\<newline>not ok 2 - b\<newline>ok 3 - c # SKIP\<newline>'' = Some ''3''
   \<and> total (parse_tap ''1..3\<newline>ok 1 - a\<newline>not ok 2 - b\<newline>ok 3 - c # SKIP\<newline>'') = 3"
proof -
  have s: "search plan_at True ''1..3\<newline>ok 1 - a\<newline>not ok 2 - b\<newline>ok 3 - c # SKIP\<newline>'' = Some ''3''"
    by code_simp
  have n: "nat_of_digits ''3'' = 3"
    by code_simp
  show ?thesis
    using tap_plan_total [of "''1..3\<newline>ok 1 - a\<newline>not ok 2 - b\<newline>ok 3 - c # SKIP\<newline>''"] s n
    by simp
qed

section \<open>The total of an npm/Jest summary\<close>

text \<open>
  C9 (as stated, refuted). The claim derives \<open>total\<close> from the summed counters for every
  npm/Jest text. The parser stores the count of the \<open>total\<close> clause first, and
  \<open>calculate_totals\<close> keeps a total that is not 0: \<open>Tests: 1 passed, 5 total\<close> gives
  \<open>total = 5\<close> while the counters sum to 1.
\<close>

theorem npm_total_counterexample:
  "map_sum id (\<lambda>s. (passed s, failed s, skipped s, errors s, total s))
     (parse_npm_test example_runtime ''Tests: 1 passed, 5 total'') = Inr (1, 0, 0, 0, 5)"
  by code_simp

text \<open>
  C9 (amended). For every npm/Jest text that parses, the four optional clauses of the
  first \<open>Tests:\<close> line are read in the fixed order passed, failed, skipped, total, each
  giving 0 when absent, and \<open>errors\<close> stays 0; \<open>total\<close> is the count of the total clause
  when that is not 0, and the sum of the passed, failed, skipped and errors counters
  otherwise.
\<close>

theorem npm_total:
  assumes "parse_npm_test rt content = Inr s"
  shows "errors s = 0 \<and>
         (case search tests_at True content of
            None \<Rightarrow> passed s = 0 \<and> failed s = 0 \<and> skipped s = 0 \<and> total s = 0
          | Some (g1, g2, g3, g4) \<Rightarrow>
              passed s = group_int g1 \<and> failed s = group_int g2 \<and> skipped s = group_int g3 \<and>
              total s = (if group_int g4 \<noteq> 0 then group_int g4
                         else passed s + failed s + skipped s + errors s))"
proof -
  define s1 where "s1 = (case search tests_at True content of
      Some (g1, g2, g3, g4) \<Rightarrow>
        ((new_summary ''npm'')\<lparr>raw_output := content\<rparr>)
          \<lparr>passed := group_int g1, failed := group_int g2,
           skipped := group_int g3, total := group_int g4\<rparr>
    | None \<Rightarrow> (new_summary ''npm'')\<lparr>raw_output := content\<rparr>)"
  from assms obtain s2 where s: "s = calculate_totals s2"
    and c: "passed s2 = passed s1" "failed s2 = failed s1" "skipped s2 = skipped s1"
           "errors s2 = errors s1" "total s2 = total s1"
    by (cases "search time_at True content"; cases "py_float rt (the (search time_at True content))")
       (auto simp: parse_npm_test_def Let_def s1_def [symmetric])
  have e: "errors s1 = 0"
    by (simp add: s1_def new_summary_def split: option.splits)
  show ?thesis
  proof (cases "search tests_at True content")
    case None
    then have "passed s1 = 0 \<and> failed s1 = 0 \<and> skipped s1 = 0 \<and> total s1 = 0"
      by (simp add: s1_def new_summary_def)
    with e None show ?thesis
      by (simp add: s c calculate_totals_def)
  next
    case (Some g)
    obtain g1 g2 g3 g4 where g: "g = (g1, g2, g3, g4)"
      by (cases g) auto
    with Some have "passed s1 = group_int g1 \<and> failed s1 = group_int g2
        \<and> skipped s1 = group_int g3 \<and> total s1 = group_int g4"
      by (simp add: s1_def new_summary_def)
    with e Some g show ?thesis
      by (simp add: s c calculate_totals_def)
  qed
qed

theorem npm_total_witness:
  "search tests_at True ''Tests:       1 failed, 2 passed, 3 total'' = Some (None, Some ''1'', None, None)
   \<and> (\<exists>s. parse_npm_test example_runtime ''Tests:       1 failed, 2 passed, 3 total'' = Inr s
          \<and> passed s = 0 \<and> failed s = 1 \<and> skipped s = 0 \<and> errors s = 0 \<and> total s = 1)"
proof -
  let ?c = "''Tests:       1 failed, 2 passed, 3 total''"
  have m: "search tests_at True ?c = Some (None, Some ''1'', None, None)"
    by code_simp
  have t: "search time_at True ?c = None"
    by code_simp
  have g: "group_int None = 0" "group_int (Some ''1'') = 1"
    by code_simp+
  obtain s where p: "parse_npm_test example_runtime ?c = Inr s"
    unfolding parse_npm_test_def Let_def t m by simp
  show ?thesis
    using npm_total [OF p] g p unfolding m by simp
qed

section \<open>JUnit: derived passed counter and nested suites\<close>

lemma and_then_Inr: "and_then r f = Inr y \<longleftrightarrow> (\<exists>x. r = Inr x \<and> f x = Inr y)"
  by (cases r) (auto simp: and_then_def)

lemma junit_append_Inr:
  "junit_append rt s tc = Inr s' \<longleftrightarrow>
     (\<exists>c. junit_case rt tc = Inr c \<and> s' = s\<lparr>test_cases := test_cases s @ [c]\<rparr>)"
  by (auto simp: junit_append_def and_then_Inr)

lemma junit_append_loop:
  "fold_err (junit_append rt) s tcs = Inr s' \<Longrightarrow>
     s' = s\<lparr>test_cases := test_cases s @ map (case_of rt) tcs\<rparr>"
proof (induction tcs arbitrary: s)
  case Nil
  then show ?case by simp
next
  case (Cons tc tcs)
  then obtain s1 where a: "junit_append rt s tc = Inr s1"
    and r: "fold_err (junit_append rt) s1 tcs = Inr s'"
    by (auto split: sum.splits)
  from a obtain c where c: "junit_case rt tc = Inr c"
    and s1: "s1 = s\<lparr>test_cases := test_cases s @ [c]\<rparr>"
    unfolding junit_append_Inr by blast
  from Cons.IH [OF r] c s1 show ?case by (simp add: case_of_def)
qed

lemma junit_suite_result:
  assumes "junit_suite rt s ts = Inr s'"
  shows "\<exists>n f e k t. attr_int ts ''tests'' = Inr n \<and> attr_int ts ''failures'' = Inr f
           \<and> attr_int ts ''errors'' = Inr e \<and> attr_int ts ''skipped'' = Inr k
           \<and> s' = s\<lparr>total := total s + n, failed := failed s + f, errors := errors s + e,
                     skipped := skipped s + k, duration := t,
                     test_cases := test_cases s @ map (case_of rt) (findall_desc ''testcase'' ts)\<rparr>"
  using assms unfolding junit_suite_def and_then_Inr
  by (auto dest!: junit_append_loop)

lemma junit_suites_cases:
  "fold_err (junit_suite rt) s tss = Inr s' \<Longrightarrow>
     test_cases s' = test_cases s
        @ concat (map (\<lambda>ts. map (case_of rt) (findall_desc ''testcase'' ts)) tss)"
proof (induction tss arbitrary: s)
  case Nil
  then show ?case by simp
next
  case (Cons ts tss)
  then obtain s1 where a: "junit_suite rt s ts = Inr s1"
    and r: "fold_err (junit_suite rt) s1 tss = Inr s'"
    by (auto split: sum.splits)
  from junit_suite_result [OF a]
  have "test_cases s1 = test_cases s @ map (case_of rt) (findall_desc ''testcase'' ts)"
    by auto
  with Cons.IH [OF r] show ?case by simp
qed

lemma descendants_trans:
  "a \<in> set (descendants b) \<Longrightarrow> b \<in> set (descendants c) \<Longrightarrow> a \<in> set (descendants c)"
proof (induction c)
  case (Element t at x cs)
  from Element.prems(2) obtain ch where ch: "ch \<in> set cs" and b: "b = ch \<or> b \<in> set (descendants ch)"
    by auto
  from b have "a \<in> set (descendants ch)"
    using Element.IH [OF ch Element.prems(1)] Element.prems(1) by auto
  with ch show ?case by auto
qed

lemma descendants_smaller: "a \<in> set (descendants b) \<Longrightarrow> size a < size b"
proof (induction b)
  case (Element t at x cs)
  then obtain ch where ch: "ch \<in> set cs" and b: "a = ch \<or> a \<in> set (descendants ch)"
    by auto
  from b Element.IH [OF ch] have "size a \<le> size ch" by auto
  moreover from ch have "size ch \<le> size_list size cs"
    by (simp add: size_list_estimation')
  ultimately show ?case by simp
qed

lemma two_members_sum:
  fixes f :: "'a \<Rightarrow> nat"
  assumes "x \<in> set xs" "y \<in> set xs" "x \<noteq> y"
  shows "f x + f y \<le> sum_list (map f xs)"
  using assms
proof (induction xs)
  case Nil
  then show ?case by simp
next
  case (Cons z zs)
  have m: "\<And>u. u \<in> set zs \<Longrightarrow> f u \<le> sum_list (map f zs)"
    by (simp add: member_le_sum_list)
  from Cons show ?case
    using m by (cases "x = z"; cases "y = z") (auto simp: add.commute add_mono trans_le_add2)
qed

lemma count_list_concat:
  "count_list (concat xss) c = sum_list (map (\<lambda>xs. count_list xs c) xss)"
  by (induction xss) auto

lemma count_list_map_mem: "x \<in> set xs \<Longrightarrow> 1 \<le> count_list (map f xs) (f x)"
  by (induction xs) auto

lemma filter_le_sum_list:
  fixes g :: "'a \<Rightarrow> nat"
  assumes "\<And>x. P x \<Longrightarrow> 1 \<le> g x"
  shows "length (filter P xs) \<le> sum_list (map g xs)"
proof (induction xs)
  case Nil
  show ?case by simp
next
  case (Cons a xs)
  show ?case
  proof (cases "P a")
    case True
    from assms [OF True] Cons.IH True show ?thesis by simp
  next
    case False
    with Cons.IH show ?thesis by simp
  qed
qed


lemma junit_case_status:
  assumes "junit_case rt tc = Inr c"
  shows "tc_status c =
     (if find_child ''failure'' tc \<noteq> None then ''failed''
      else if find_child ''error'' tc \<noteq> None then ''error''
      else if find_child ''skipped'' tc \<noteq> None then ''skipped''
      else ''passed'')"
proof (cases "attr_float rt tc ''time''")
  case (Inl e)
  with assms show ?thesis by (simp add: junit_case_def and_then_def)
next
  case (Inr d)
  from assms have "c = projr (junit_case rt tc)" by simp
  then show ?thesis
    by (simp add: junit_case_def and_then_def Inr Let_def split: option.split)
qed

lemma junit_suites_Cons:
  "fold_err (junit_suite rt) s (ts # tss) = Inr s' \<longleftrightarrow>
     (\<exists>s1. junit_suite rt s ts = Inr s1 \<and> fold_err (junit_suite rt) s1 tss = Inr s')"
  by (auto split: sum.splits)

lemma junit_case_of:
  assumes "fold_err (junit_append rt) s tcs = Inr s'" and "tc \<in> set tcs"
  shows "junit_case rt tc = Inr (case_of rt tc)"
  using assms
proof (induction tcs arbitrary: s)
  case Nil
  then show ?case by simp
next
  case (Cons a tcs)
  then obtain s1 where a: "junit_append rt s a = Inr s1"
    and r: "fold_err (junit_append rt) s1 tcs = Inr s'"
    by (auto split: sum.splits)
  show ?case
  proof (cases "tc = a")
    case True
    with a show ?thesis by (auto simp: junit_append_Inr case_of_def)
  next
    case False
    with Cons.prems(2) Cons.IH [OF r] show ?thesis by simp
  qed
qed

lemma parse_junit_Loaded:
  "parse_junit_xml rt (Loaded r) = Inr s \<longleftrightarrow>
     (\<exists>sm. fold_err (junit_suite rt) (new_summary ''junit'')
             (if tag r = ''testsuites'' then findall_desc ''testsuite'' r
              else if tag r = ''testsuite'' then [r] else []) = Inr sm
           \<and> s = sm\<lparr>passed := total sm - failed sm - errors sm - skipped sm\<rparr>)"
  by (auto simp: parse_junit_xml_def Let_def and_then_Inr)

text \<open>
  C6. Whenever the JUnit parser returns a summary, its \<open>passed\<close> counter is
  \<open>total - failed - errors - skipped\<close>, an integer difference that is not clamped. In
  particular a \<open>testsuite\<close> root with \<open>tests="3"\<close>, \<open>failures="1"\<close>, \<open>skipped="1"\<close> and
  no \<open>errors\<close> attribute, beneath which lie two \<open>testcase\<close> elements, the first with a
  \<open>failure\<close> child and the second with a \<open>skipped\<close> child only, gives \<open>total = 3\<close>,
  \<open>failed = 1\<close>, \<open>skipped = 1\<close>, \<open>passed = 1\<close> and exactly two test cases, with the
  statuses failed and skipped.
\<close>

theorem junit_passed_derived:
  assumes "parse_junit_xml rt doc = Inr s"
  shows "passed s = total s - failed s - errors s - skipped s
    \<and> (\<forall>r tc1 tc2.
         doc = Loaded r \<and> tag r = ''testsuite''
         \<and> get r ''tests'' = Some ''3'' \<and> get r ''failures'' = Some ''1''
         \<and> get r ''skipped'' = Some ''1'' \<and> get r ''errors'' = None
         \<and> findall_desc ''testcase'' r = [tc1, tc2]
         \<and> find_child ''failure'' tc1 \<noteq> None
         \<and> find_child ''failure'' tc2 = None \<and> find_child ''error'' tc2 = None
         \<and> find_child ''skipped'' tc2 \<noteq> None
         \<longrightarrow> total s = 3 \<and> failed s = 1 \<and> skipped s = 1 \<and> passed s = 1
             \<and> map tc_status (test_cases s) = [''failed'', ''skipped''])"
proof (intro conjI allI impI)
  from assms obtain r where f: "doc = Loaded r"
    by (cases doc) (auto simp: parse_junit_xml_def)
  with assms show "passed s = total s - failed s - errors s - skipped s"
    unfolding f parse_junit_Loaded by auto
next
  fix r tc1 tc2
  assume h: "doc = Loaded r \<and> tag r = ''testsuite''
         \<and> get r ''tests'' = Some ''3'' \<and> get r ''failures'' = Some ''1''
         \<and> get r ''skipped'' = Some ''1'' \<and> get r ''errors'' = None
         \<and> findall_desc ''testcase'' r = [tc1, tc2]
         \<and> find_child ''failure'' tc1 \<noteq> None
         \<and> find_child ''failure'' tc2 = None \<and> find_child ''error'' tc2 = None
         \<and> find_child ''skipped'' tc2 \<noteq> None"
  have three: "py_int ''3'' = Inr 3" and one: "py_int ''1'' = Inr 1"
    by code_simp+
  from h have ne: "tag r \<noteq> ''testsuites''" by simp
  from assms h have p: "parse_junit_xml rt (Loaded r) = Inr s" by simp
  from p [unfolded parse_junit_Loaded] h ne obtain sm where
    sm: "junit_suite rt (new_summary ''junit'') r = Inr sm"
    and s: "s = sm\<lparr>passed := total sm - failed sm - errors sm - skipped sm\<rparr>"
    by (auto split: sum.splits)
  from junit_suite_result [OF sm] h three one obtain t where
    sm_eq: "sm = (new_summary ''junit'')\<lparr>total := 3, failed := 1, errors := 0, skipped := 1,
                   duration := t, test_cases := [case_of rt tc1, case_of rt tc2]\<rparr>"
    by (auto simp: attr_int_def new_summary_def)
  from sm obtain s0 where lp: "fold_err (junit_append rt) s0 [tc1, tc2] = Inr sm"
    using h unfolding junit_suite_def and_then_Inr by auto
  have c1: "junit_case rt tc1 = Inr (case_of rt tc1)"
    and c2: "junit_case rt tc2 = Inr (case_of rt tc2)"
    using junit_case_of [OF lp] by simp_all
  have "tc_status (case_of rt tc1) = ''failed''" "tc_status (case_of rt tc2) = ''skipped''"
    using junit_case_status [OF c1] junit_case_status [OF c2] h by simp_all
  then show "total s = 3" "failed s = 1" "skipped s = 1" "passed s = 1"
    "map tc_status (test_cases s) = [''failed'', ''skipped'']"
    by (simp_all add: s sm_eq)
qed

theorem junit_passed_derived_witness:
  "(\<exists>s. parse_junit_xml example_runtime (Loaded junit_example) = Inr s
      \<and> total s = 3 \<and> failed s = 1 \<and> skipped s = 1 \<and> passed s = 1
      \<and> map tc_status (test_cases s) = [''failed'', ''skipped''])
   \<and> (\<exists>s. parse_junit_xml example_runtime (Loaded junit_inconsistent_example) = Inr s
      \<and> total s = 1 \<and> failed s = 2 \<and> passed s = - 1)"
proof -
  have "\<not> isl (parse_junit_xml example_runtime (Loaded junit_inconsistent_example))"
    by code_simp
  then obtain s' where p': "parse_junit_xml example_runtime (Loaded junit_inconsistent_example) = Inr s'"
    by (cases "parse_junit_xml example_runtime (Loaded junit_inconsistent_example)") auto
  have c': "total (projr (parse_junit_xml example_runtime (Loaded junit_inconsistent_example))) = 1"
    "failed (projr (parse_junit_xml example_runtime (Loaded junit_inconsistent_example))) = 2"
    "errors (projr (parse_junit_xml example_runtime (Loaded junit_inconsistent_example))) = 0"
    "skipped (projr (parse_junit_xml example_runtime (Loaded junit_inconsistent_example))) = 0"
    by code_simp+
  have neg: "total s' = 1 \<and> failed s' = 2 \<and> passed s' = - 1"
    using junit_passed_derived [OF p'] c' unfolding p' by simp
  have "\<not> isl (parse_junit_xml example_runtime (Loaded junit_example))"
    by code_simp
  then obtain s where p: "parse_junit_xml example_runtime (Loaded junit_example) = Inr s"
    by (cases "parse_junit_xml example_runtime (Loaded junit_example)") auto
  have h: "tag junit_example = ''testsuite''"
    "get junit_example ''tests'' = Some ''3''" "get junit_example ''failures'' = Some ''1''"
    "get junit_example ''skipped'' = Some ''1''" "get junit_example ''errors'' = None"
    "findall_desc ''testcase'' junit_example = [hd (children junit_example), last (children junit_example)]"
    "find_child ''failure'' (hd (children junit_example)) \<noteq> None"
    "find_child ''failure'' (last (children junit_example)) = None"
    "find_child ''error'' (last (children junit_example)) = None"
    "find_child ''skipped'' (last (children junit_example)) \<noteq> None"
    by code_simp+
  show ?thesis
    using junit_passed_derived [OF p] h p p' neg by blast
qed

text \<open>
  C10. Under a \<open>testsuites\<close> root the suites are all the \<open>testsuite\<close> elements beneath the
  root and each suite contributes all the \<open>testcase\<close> elements beneath it. So when a suite
  \<open>inner\<close> lies inside a suite \<open>outer\<close>, the inner suite is iterated as well, each of
  its test cases also lies beneath the outer suite, and the case built from it occurs in
  \<open>test_cases\<close> at least once for every suite it lies beneath, so at least twice: once
  for the inner suite and once for the enclosing one.
\<close>

theorem junit_nested_cases:
  assumes "parse_junit_xml rt (Loaded r) = Inr s" and "tag r = ''testsuites''"
    and "outer \<in> set (findall_desc ''testsuite'' r)"
    and "inner \<in> set (findall_desc ''testsuite'' outer)"
    and "tc \<in> set (findall_desc ''testcase'' inner)"
  shows "test_cases s =
           concat (map (\<lambda>ts. map (\<lambda>c. projr (junit_case rt c)) (findall_desc ''testcase'' ts))
                       (findall_desc ''testsuite'' r))
       \<and> inner \<in> set (findall_desc ''testsuite'' r)
       \<and> tc \<in> set (findall_desc ''testcase'' outer)
       \<and> inner \<noteq> outer
       \<and> length (filter (\<lambda>ts. tc \<in> set (findall_desc ''testcase'' ts))
                         (findall_desc ''testsuite'' r))
            \<le> count_list (test_cases s) (projr (junit_case rt tc))
       \<and> 2 \<le> count_list (test_cases s) (projr (junit_case rt tc))"
proof -
  let ?cases = "\<lambda>ts. map (case_of rt) (findall_desc ''testcase'' ts)"
  let ?suites = "findall_desc ''testsuite'' r"
  from assms(1,2) obtain sm where
    sm: "fold_err (junit_suite rt) (new_summary ''junit'') ?suites = Inr sm"
    and s: "s = sm\<lparr>passed := total sm - failed sm - errors sm - skipped sm\<rparr>"
    unfolding parse_junit_Loaded by auto
  have tcs: "test_cases s = concat (map ?cases ?suites)"
    using junit_suites_cases [OF sm] by (simp add: s new_summary_def)
  have inner: "inner \<in> set ?suites"
    using assms(3,4) descendants_trans [of inner outer r] by (auto simp: findall_desc_def)
  have tc: "tc \<in> set (findall_desc ''testcase'' outer)"
    using assms(4,5) descendants_trans [of tc inner outer] by (auto simp: findall_desc_def)
  have ne: "inner \<noteq> outer"
    using assms(4) descendants_smaller [of inner outer] by (auto simp: findall_desc_def)
  have "count_list (?cases outer) (case_of rt tc) + count_list (?cases inner) (case_of rt tc)
          \<le> sum_list (map (\<lambda>ts. count_list (?cases ts) (case_of rt tc)) ?suites)"
    using two_members_sum [OF assms(3) inner, of "\<lambda>ts. count_list (?cases ts) (case_of rt tc)"] ne
    by auto
  moreover have "1 \<le> count_list (?cases outer) (case_of rt tc)"
    using count_list_map_mem [OF tc] .
  moreover have "1 \<le> count_list (?cases inner) (case_of rt tc)"
    using count_list_map_mem [OF assms(5)] .
  ultimately have "2 \<le> count_list (test_cases s) (case_of rt tc)"
    unfolding tcs count_list_concat by (simp add: comp_def)
  moreover have "length (filter (\<lambda>ts. tc \<in> set (findall_desc ''testcase'' ts)) ?suites)
          \<le> sum_list (map (\<lambda>ts. count_list (?cases ts) (case_of rt tc)) ?suites)"
    by (rule filter_le_sum_list) (rule count_list_map_mem)
  then have "length (filter (\<lambda>ts. tc \<in> set (findall_desc ''testcase'' ts)) ?suites)
          \<le> count_list (test_cases s) (case_of rt tc)"
    unfolding tcs count_list_concat by (simp add: comp_def)
  ultimately show ?thesis
    using tcs inner tc ne by (simp add: case_of_def [abs_def])
qed

theorem junit_nested_cases_witness:
  "\<exists>s. parse_junit_xml example_runtime (Loaded junit_nested_example) = Inr s
      \<and> junit_inner_example \<in> set (findall_desc ''testsuite'' junit_outer_example)
      \<and> 2 \<le> count_list (test_cases s)
               (projr (junit_case example_runtime (Element ''testcase'' [(''name'', ''b'')] None [])))"
proof -
  have "\<not> isl (parse_junit_xml example_runtime (Loaded junit_nested_example))"
    by code_simp
  then obtain s where p: "parse_junit_xml example_runtime (Loaded junit_nested_example) = Inr s"
    by (cases "parse_junit_xml example_runtime (Loaded junit_nested_example)") auto
  have t: "tag junit_nested_example = ''testsuites''"
    by code_simp
  have o: "junit_outer_example \<in> set (findall_desc ''testsuite'' junit_nested_example)"
    by code_simp
  have i: "junit_inner_example \<in> set (findall_desc ''testsuite'' junit_outer_example)"
    by code_simp
  have c: "Element ''testcase'' [(''name'', ''b'')] None []
             \<in> set (findall_desc ''testcase'' junit_inner_example)"
    by code_simp
  show ?thesis
    using junit_nested_cases [OF p t o i c] p i by blast
qed

section \<open>pytest JSON: documents that are not containers\<close>

lemma pytest_json_malformed:
  "parse_pytest_json (Malformed cause) = Inl (ValueError (''Failed to parse pytest JSON: '' @ cause))"
  by (simp add: parse_pytest_json_def)

lemma pytest_json_all_zero:
  assumes "(\<exists>kvs. data = JObj kvs \<and> map_of kvs ''summary'' = None)
         \<or> (\<exists>t. data = JStr t \<and> \<not> contains ''summary'' t)"
  shows "parse_pytest_json (Loaded data) = Inr (dyn_summary (new_summary ''pytest-json''))"
  using assms by (auto simp: parse_pytest_json_def and_then_def is_list_def)

text \<open>
  C4 (the code departs from the claim). A document that is well-formed JSON but neither an
  object, an array nor a string (a number, a boolean, \<open>null\<close>) does not give the all-zero
  summary: the membership test \<open>"summary" in data\<close> raises \<open>TypeError\<close>, which the parser
  does not catch, so the parser raises.
\<close>

theorem pytest_json_scalar_raises:
  assumes "data = JNull \<or> (\<exists>b. data = JBool b) \<or> (\<exists>i. data = JInt i) \<or> (\<exists>x. data = JFloat x)"
  shows "parse_pytest_json (Loaded data) = Inl (TypeError ''argument is not iterable'')"
  using assms by (auto simp: parse_pytest_json_def and_then_def)

theorem pytest_json_scalar_raises_witness:
  "parse_pytest_json (load_json example_world ''five.json'')
     = Inl (TypeError ''argument is not iterable'')"
proof -
  have l: "load_json example_world ''five.json'' = Loaded (JInt 5)"
    by (simp add: example_world_def)
  have "JInt 5 = JNull \<or> (\<exists>b. JInt 5 = JBool b) \<or> (\<exists>i. JInt 5 = JInt i) \<or> (\<exists>x. JInt 5 = JFloat x)"
    by simp
  from pytest_json_scalar_raises [OF this] show ?thesis
    unfolding l .
qed

section \<open>Format detection\<close>

lemma takeWhile_rev_ext:
  assumes "d \<notin> set e"
  shows "takeWhile (\<lambda>c. c \<noteq> d) (rev (stem @ d # e)) = rev e"
proof -
  have "rev (stem @ d # e) = rev e @ d # rev stem" by simp
  moreover have "takeWhile (\<lambda>c. c \<noteq> d) (rev e @ d # rev stem) = rev e"
    using assms by (auto simp: takeWhile_append2 takeWhile_tail)
  ultimately show ?thesis by simp
qed

lemma path_suffix_iff:
  assumes "CHR ''.'' \<notin> set e" and "e \<noteq> []"
  shows "path_suffix p = CHR ''.'' # e \<longleftrightarrow> (\<exists>stem. stem \<noteq> [] \<and> path_name p = stem @ CHR ''.'' # e)"
proof
  assume "\<exists>stem. stem \<noteq> [] \<and> path_name p = stem @ CHR ''.'' # e"
  then obtain stem where st: "stem \<noteq> []" and n: "path_name p = stem @ CHR ''.'' # e"
    by blast
  have "takeWhile (\<lambda>c. c \<noteq> CHR ''.'') (rev (path_name p)) = rev e"
    unfolding n using assms(1) by (rule takeWhile_rev_ext)
  with st assms(2) show "path_suffix p = CHR ''.'' # e"
    by (simp add: path_suffix_def Let_def n)
next
  assume sfx: "path_suffix p = CHR ''.'' # e"
  let ?n = "path_name p"
  let ?P = "\<lambda>c. c \<noteq> CHR ''.''"
  from sfx have dot: "CHR ''.'' \<in> set ?n"
    and e: "e = rev (takeWhile ?P (rev ?n))"
    and len: "length e + 1 < length ?n"
    by (auto simp: path_suffix_def Let_def split: if_splits)
  from dot have "dropWhile ?P (rev ?n) \<noteq> []"
    by auto
  then obtain c rest where dw: "dropWhile ?P (rev ?n) = c # rest"
    by (cases "dropWhile ?P (rev ?n)") auto
  then have c: "c = CHR ''.''"
    using hd_dropWhile [of ?P "rev ?n"] by (metis list.distinct(1) list.sel(1))
  have "rev ?n = takeWhile ?P (rev ?n) @ dropWhile ?P (rev ?n)" by simp
  then have "rev ?n = rev e @ CHR ''.'' # rest"
    using dw c e by simp
  then have "rev (rev ?n) = rev (rev e @ CHR ''.'' # rest)" by simp
  then have n: "?n = rev rest @ CHR ''.'' # e" by simp
  with len have "rev rest \<noteq> []" by auto
  with n show "\<exists>stem. stem \<noteq> [] \<and> ?n = stem @ CHR ''.'' # e" by blast
qed

text \<open>
  C7 (as stated, refuted). The claim is about every path that ends in \<open>.xml\<close>. The detector
  compares the suffix of the file name, and a file whose name is just \<open>.xml\<close> has none:
  its content is sniffed, and for a plain text the answer is \<open>generic\<close>.
\<close>

theorem detect_format_dot_xml_counterexample:
  "detect_format example_world (''reports/'' @ ''.xml'') = ''generic''"
  by code_simp

text \<open>
  C7 (amended). A path has the suffix \<open>.xml\<close> (or \<open>.json\<close>) exactly when its file name is a
  non-empty stem followed by \<open>.xml\<close> (or \<open>.json\<close>). For such a path the detector returns
  \<open>junit\<close> (or \<open>pytest-json\<close>) whatever the files hold. For every other path the answer is
  that of the content rules on the first ten lines of the file, \<open>generic\<close> when none of
  them matches, and \<open>generic\<close> when the file cannot be read; the detector is total, it
  never raises.
\<close>

theorem detect_format_by_suffix:
  "(path_suffix p = ''.xml'' \<longleftrightarrow> (\<exists>stem. stem \<noteq> [] \<and> path_name p = stem @ ''.xml''))
   \<and> (path_suffix p = ''.json'' \<longleftrightarrow> (\<exists>stem. stem \<noteq> [] \<and> path_name p = stem @ ''.json''))
   \<and> (path_suffix p = ''.xml'' \<longrightarrow> detect_format w p = ''junit'')
   \<and> (path_suffix p = ''.json'' \<longrightarrow> detect_format w p = ''pytest-json'')
   \<and> (path_suffix p \<noteq> ''.xml'' \<and> path_suffix p \<noteq> ''.json'' \<longrightarrow>
        detect_format w p = (case read_text w p of
                               None \<Rightarrow> ''generic''
                             | Some content \<Rightarrow> sniff (take_lines 10 content)))
   \<and> (match_lit ''<?xml'' (strip l) = None \<and> match_lit ''{'' (strip l) = None
        \<and> \<not> contains ''=== RUN'' l \<and> \<not> contains ''--- PASS'' l
        \<and> \<not> contains ''Tests:'' l \<and> \<not> contains ''PASS '' l
        \<and> search plan_at True l = None \<longrightarrow> sniff l = ''generic'')"
proof -
  have x: "path_suffix p = ''.xml'' \<longleftrightarrow> (\<exists>stem. stem \<noteq> [] \<and> path_name p = stem @ ''.xml'')"
    using path_suffix_iff [of "''xml''" p] by simp
  have j: "path_suffix p = ''.json'' \<longleftrightarrow> (\<exists>stem. stem \<noteq> [] \<and> path_name p = stem @ ''.json'')"
    using path_suffix_iff [of "''json''" p] by simp
  have d: "path_suffix p = ''.xml'' \<longrightarrow> detect_format w p = ''junit''"
    "path_suffix p = ''.json'' \<longrightarrow> detect_format w p = ''pytest-json''"
    "path_suffix p \<noteq> ''.xml'' \<and> path_suffix p \<noteq> ''.json'' \<longrightarrow>
        detect_format w p = (case read_text w p of
                               None \<Rightarrow> ''generic''
                             | Some content \<Rightarrow> sniff (take_lines 10 content))"
    by (simp_all add: detect_format_def split: option.split)
  have s: "match_lit ''<?xml'' (strip l) = None \<and> match_lit ''{'' (strip l) = None
        \<and> \<not> contains ''=== RUN'' l \<and> \<not> contains ''--- PASS'' l
        \<and> \<not> contains ''Tests:'' l \<and> \<not> contains ''PASS '' l
        \<and> search plan_at True l = None \<longrightarrow> sniff l = ''generic''"
    by (simp add: sniff_def)
  from x j d s show ?thesis by blast
qed

theorem detect_format_by_suffix_witness:
  "path_suffix ''results.xml'' = ''.xml''
   \<and> read_text example_world ''results.xml'' = Some ''1..2''
   \<and> sniff (take_lines 10 ''1..2'') = ''tap''
   \<and> detect_format example_world ''results.xml'' = ''junit''
   \<and> path_suffix ''five.json'' = ''.json''
   \<and> detect_format example_world ''five.json'' = ''pytest-json''
   \<and> detect_format example_world ''missing.txt'' = ''generic''"
proof -
  have a: "path_suffix ''results.xml'' = ''.xml''" "path_suffix ''five.json'' = ''.json''"
    "path_suffix ''missing.txt'' \<noteq> ''.xml''" "path_suffix ''missing.txt'' \<noteq> ''.json''"
    by code_simp+
  have b: "read_text example_world ''results.xml'' = Some ''1..2''"
    "read_text example_world ''missing.txt'' = None"
    by (simp_all add: example_world_def)
  have c: "sniff (take_lines 10 ''1..2'') = ''tap''"
    by code_simp
  show ?thesis
    using detect_format_by_suffix [of "''results.xml''" example_world]
      detect_format_by_suffix [of "''five.json''" example_world]
      detect_format_by_suffix [of "''missing.txt''" example_world] a b c
    by simp
qed

section \<open>The size of the Markdown report\<close>

lemma utf8_len_append [simp]: "utf8_len (a @ b) = utf8_len a + utf8_len b"
  by (simp add: utf8_len_def)

lemma utf8_len_Nil [simp]: "utf8_len [] = 0"
  by (simp add: utf8_len_def)

lemma utf8_len_nl [simp]: "utf8_len (nl # s) = Suc (utf8_len s)"
  by (simp add: utf8_len_def)

lemma weight_simps [simp]:
  "weight [] = 0" "weight (l # ls) = utf8_len l + 1 + weight ls"
  "weight (xs @ ys) = weight xs + weight ys"
  by (simp_all add: weight_def)

lemma utf8_len_join: "ls \<noteq> [] \<Longrightarrow> utf8_len (join_nl ls) + 1 = weight ls"
  by (induction ls rule: join_nl.induct) simp_all

lemma utf8_len_member:
  assumes "l \<in> set ls"
  shows "utf8_len l \<le> utf8_len (join_nl ls)"
proof -
  from assms have ne: "ls \<noteq> []" by auto
  have "utf8_len l + 1 \<in> set (map (\<lambda>l. utf8_len l + 1) ls)"
    using assms by auto
  then have "utf8_len l + 1 \<le> weight ls"
    unfolding weight_def by (rule member_le_sum_list) simp_all
  with utf8_len_join [OF ne] show ?thesis by simp
qed

lemma lines_to_keep_weight:
  "cur \<le> SAFE_SUMMARY_SIZE - 100 \<Longrightarrow> cur + weight (lines_to_keep cur ls) \<le> SAFE_SUMMARY_SIZE - 100"
proof (induction ls arbitrary: cur)
  case Nil
  then show ?case by simp
next
  case (Cons l ls)
  show ?case
  proof (cases "cur + (utf8_len l + 1) > SAFE_SUMMARY_SIZE - 100")
    case True
    with Cons.prems show ?thesis by (simp add: Let_def)
  next
    case False
    then have "cur + (utf8_len l + 1) \<le> SAFE_SUMMARY_SIZE - 100" by simp
    from Cons.IH [OF this] False show ?thesis by (simp add: Let_def add.assoc)
  qed
qed

lemma utf8_len_warning: "utf8_len truncation_warning = 47"
  by (simp add: utf8_len_def truncation_warning_def)

lemma join_nl_snoc: "xs \<noteq> [] \<Longrightarrow> join_nl (xs @ [y]) = join_nl xs @ nl # y"
  by (induction xs rule: join_nl.induct) simp_all

lemma truncated_size:
  "utf8_len (join_nl (lines_to_keep 0 ls @ [[], truncation_warning])) \<le> 999948"
proof -
  have "utf8_len (join_nl (lines_to_keep 0 ls @ [[], truncation_warning])) + 1
          = weight (lines_to_keep 0 ls) + 49"
    by (subst utf8_len_join) (simp_all add: utf8_len_warning)
  moreover have "weight (lines_to_keep 0 ls) \<le> 999900"
    using lines_to_keep_weight [of 0 ls] by (simp add: SAFE_SUMMARY_SIZE_def)
  ultimately show ?thesis by simp
qed

lemma truncated_ends:
  "\<exists>pre. join_nl (lines_to_keep 0 ls @ [[], truncation_warning]) = pre @ nl # truncation_warning"
proof -
  have "join_nl ((lines_to_keep 0 ls @ [[]]) @ [truncation_warning])
          = join_nl (lines_to_keep 0 ls @ [[]]) @ nl # truncation_warning"
    by (rule join_nl_snoc) simp
  then show ?thesis by auto
qed

lemma raw_output_line:
  assumes "show_details" and "raw_output s \<noteq> []"
  shows "fst (truncate_text (raw_output s) ml) \<in> set (markdown_lines rt s show_details sp ml ib)"
  using assms unfolding markdown_lines_def Let_def by simp

lemma truncate_text_empty: "fst (truncate_text [] ml) = []"
  by (simp add: truncate_text_def Let_def)

lemma utf8_len_replicate_x: "utf8_len (replicate n (CHR ''x'')) = n"
  by (induction n) (simp_all add: utf8_len_def)

lemma split_on_replicate_x: "split_on nl (replicate n (CHR ''x'')) = [replicate n (CHR ''x'')]"
  by (induction n) simp_all

lemma truncate_text_filler: "0 < ml \<Longrightarrow> truncate_text filler_output ml = (filler_output, False)"
  unfolding filler_output_def truncate_text_def Let_def split_on_replicate_x by simp

text \<open>
  C5. For every summary, every runtime and every combination of rendering options the
  Markdown text is at most 1,000,000 bytes in UTF-8. Whenever the composed report exceeds
  that size the text ends in the fixed truncation warning line; this is the case in
  particular when details are shown and the raw output placed in the report (after the cut
  to the configured number of lines) is itself larger than 1,000,000 bytes, as 2,000,000
  characters of filler on one line are.
\<close>

theorem markdown_size_bound:
  "utf8_len (generate_markdown rt s show_details sp ml ib) \<le> 1000000
   \<and> (1000000 < utf8_len (join_nl (markdown_lines rt s show_details sp ml ib)) \<longrightarrow>
        (\<exists>pre. generate_markdown rt s show_details sp ml ib = pre @ nl # truncation_warning))
   \<and> (show_details \<and> 1000000 < utf8_len (fst (truncate_text (raw_output s) ml)) \<longrightarrow>
        (\<exists>pre. generate_markdown rt s show_details sp ml ib = pre @ nl # truncation_warning))"
proof -
  let ?lines = "markdown_lines rt s show_details sp ml ib"
  have big: "1000000 < utf8_len (join_nl ?lines) \<Longrightarrow>
      generate_markdown rt s show_details sp ml ib
        = join_nl (lines_to_keep 0 ?lines @ [[], truncation_warning])"
    by (simp add: generate_markdown_def Let_def SAFE_SUMMARY_SIZE_def)
  have small: "\<not> 1000000 < utf8_len (join_nl ?lines) \<Longrightarrow>
      generate_markdown rt s show_details sp ml ib = join_nl ?lines"
    by (simp add: generate_markdown_def Let_def SAFE_SUMMARY_SIZE_def)
  have a: "utf8_len (generate_markdown rt s show_details sp ml ib) \<le> 1000000"
  proof (cases "1000000 < utf8_len (join_nl ?lines)")
    case True
    with big truncated_size [of ?lines] show ?thesis by simp
  next
    case False
    with small show ?thesis by simp
  qed
  have b: "1000000 < utf8_len (join_nl ?lines) \<longrightarrow>
        (\<exists>pre. generate_markdown rt s show_details sp ml ib = pre @ nl # truncation_warning)"
    using big truncated_ends [of ?lines] by auto
  have c: "show_details \<and> 1000000 < utf8_len (fst (truncate_text (raw_output s) ml)) \<longrightarrow>
        (\<exists>pre. generate_markdown rt s show_details sp ml ib = pre @ nl # truncation_warning)"
  proof (intro impI, elim conjE)
    assume sd: show_details and r: "1000000 < utf8_len (fst (truncate_text (raw_output s) ml))"
    from r have "raw_output s \<noteq> []"
      using truncate_text_empty [of ml] by auto
    from raw_output_line [OF sd this]
    have "utf8_len (fst (truncate_text (raw_output s) ml)) \<le> utf8_len (join_nl ?lines)"
      by (rule utf8_len_member)
    with r have "1000000 < utf8_len (join_nl ?lines)" by simp
    with b show "\<exists>pre. generate_markdown rt s show_details sp ml ib = pre @ nl # truncation_warning"
      by blast
  qed
  from a b c show ?thesis by blast
qed


theorem markdown_size_bound_witness:
  "utf8_len (raw_output oversized_summary) = 2000000
   \<and> utf8_len (generate_markdown example_runtime oversized_summary True False 100 True) \<le> 1000000
   \<and> (\<exists>pre. generate_markdown example_runtime oversized_summary True False 100 True
              = pre @ nl # truncation_warning)"
proof -
  have r: "raw_output oversized_summary = filler_output"
    by (simp add: oversized_summary_def)
  have n: "utf8_len filler_output = 2000000"
    unfolding filler_output_def by (rule utf8_len_replicate_x)
  have t: "fst (truncate_text (raw_output oversized_summary) 100) = filler_output"
    unfolding r by (simp add: truncate_text_filler)
  have "1000000 < utf8_len (fst (truncate_text (raw_output oversized_summary) 100))"
    unfolding t n by simp
  with markdown_size_bound [of example_runtime oversized_summary True False 100 True] r n
  show ?thesis by simp
qed

section \<open>JSON emission\<close>

lemma json_of_number_inject [simp]: "json_of_number a = json_of_number b \<longleftrightarrow> a = b"
  by (cases a; cases b) simp_all

lemma case_json_eq: "case_json a = case_json b \<longleftrightarrow> forget_output a = forget_output b"
  by (cases a; cases b) (auto simp: case_json_def forget_output_def)

lemma map_eq_transfer:
  assumes "\<And>a b. f a = f b \<longleftrightarrow> g a = g b"
  shows "map f xs = map f ys \<longleftrightarrow> map g xs = map g ys"
proof (induction xs arbitrary: ys)
  case Nil
  then show ?case by auto
next
  case (Cons x xs)
  then show ?case using assms by (cases ys) auto
qed

lemma status_forget [simp]: "status (forget_outputs s) = status s"
  by (simp add: status_def forget_outputs_def)

lemma pass_rate_forget [simp]: "pass_rate (forget_outputs s) = pass_rate s"
  by (simp add: pass_rate_def forget_outputs_def)

lemma summary_json_eq:
  "summary_json s = summary_json s' \<longleftrightarrow> forget_outputs s = forget_outputs s'"
proof
  assume "forget_outputs s = forget_outputs s'"
  then have f: "title s = title s'" "passed s = passed s'" "failed s = failed s'"
    "skipped s = skipped s'" "errors s = errors s'" "total s = total s'"
    "duration s = duration s'" "format_detected s = format_detected s'"
    "timestamp s = timestamp s'"
    "map forget_output (test_cases s) = map forget_output (test_cases s')"
    by (cases s; cases s'; simp add: forget_outputs_def)+
  from f(10) have "map case_json (test_cases s) = map case_json (test_cases s')"
    using map_eq_transfer [of case_json forget_output] case_json_eq by blast
  with f show "summary_json s = summary_json s'"
    by (simp add: summary_json_def status_def pass_rate_def)
next
  assume e: "summary_json s = summary_json s'"
  then have f: "title s = title s'" "passed s = passed s'" "failed s = failed s'"
    "skipped s = skipped s'" "errors s = errors s'" "total s = total s'"
    "duration s = duration s'" "format_detected s = format_detected s'"
    "timestamp s = timestamp s'"
    and c: "map case_json (test_cases s) = map case_json (test_cases s')"
    by (simp_all add: summary_json_def)
  from c have "map forget_output (test_cases s) = map forget_output (test_cases s')"
    using map_eq_transfer [of case_json forget_output] case_json_eq by blast
  with f show "forget_outputs s = forget_outputs s'"
    by (cases s; cases s') (simp add: forget_outputs_def)
qed

text \<open>
  C2 (as stated, refuted). The claim lets no field of \<open>TestSummary\<close> or \<open>TestCase\<close> be
  dropped. The dictionary built for \<open>json.dumps\<close> has no entry for the summary's
  \<open>raw_output\<close> nor for a test case's \<open>output\<close>: a summary that holds both gives the same
  document as the summary with both emptied.
\<close>

theorem json_drops_output_counterexample:
  "summary_json json_example
     = summary_json (json_example\<lparr>raw_output := [], test_cases := [new_case ''t'']\<rparr>)
   \<and> raw_output json_example = ''captured log''
   \<and> map tc_output (test_cases json_example) = [''trace'']"
  by (simp add: summary_json_def json_example_def new_summary_def new_case_def case_json_def
        status_def pass_rate_def)

text \<open>
  C2 (amended). The JSON document has the keys title, status, passed, failed, skipped,
  errors, total, duration, pass_rate, format, timestamp and test_cases, and each element of
  test_cases the keys name, classname, status, duration and message. Two summaries give
  the same document exactly when they agree on everything but \<open>raw_output\<close> and the test
  cases' \<open>output\<close>, which are not emitted. In JSON mode \<open>main\<close> prints that one document
  for the summary it obtained, with title and timestamp set, and nothing else.
\<close>

theorem json_emission:
  "keys_of (summary_json s) = [''title'', ''status'', ''passed'', ''failed'', ''skipped'', ''errors'',
       ''total'', ''duration'', ''pass_rate'', ''format'', ''timestamp'', ''test_cases'']
   \<and> keys_of (case_json tc) = [''name'', ''classname'', ''status'', ''duration'', ''message'']
   \<and> (summary_json s = summary_json s' \<longleftrightarrow> forget_outputs s = forget_outputs s')
   \<and> (a_json a \<and> obtain_summary rt w a = Some (Inr s) \<longrightarrow>
        main rt w a = Some \<lparr>result = Inr (if status s = ''failed'' then 1 else 0),
                             stdout = [Json (summary_json (s\<lparr>title := a_title a, timestamp := now_iso w\<rparr>))],
                             stderr = [], written = []\<rparr>)"
proof -
  have st: "status (s\<lparr>title := a_title a, timestamp := now_iso w\<rparr>) = status s"
    by (simp add: status_def)
  have "a_json a \<and> obtain_summary rt w a = Some (Inr s) \<longrightarrow>
        main rt w a = Some \<lparr>result = Inr (if status s = ''failed'' then 1 else 0),
                             stdout = [Json (summary_json (s\<lparr>title := a_title a, timestamp := now_iso w\<rparr>))],
                             stderr = [], written = []\<rparr>"
    by (auto simp: main_def report_def Let_def st)
  then show ?thesis
    using summary_json_eq [of s s'] by (simp add: summary_json_def case_json_def)
qed


theorem json_emission_witness:
  "a_json (default_args\<lparr>a_passed := Some 10, a_failed := Some 2, a_json := True\<rparr>)
   \<and> (\<exists>s. obtain_summary example_runtime example_world
              (default_args\<lparr>a_passed := Some 10, a_failed := Some 2, a_json := True\<rparr>) = Some (Inr s)
          \<and> main example_runtime example_world
              (default_args\<lparr>a_passed := Some 10, a_failed := Some 2, a_json := True\<rparr>)
            = Some \<lparr>result = Inr 1,
                    stdout = [Json (summary_json (s\<lparr>title := ''Test Results'',
                                                      timestamp := ''2024-01-01T00:00:00''\<rparr>))],
                    stderr = [], written = []\<rparr>)"
proof -
  let ?a = "default_args\<lparr>a_passed := Some 10, a_failed := Some 2, a_json := True\<rparr>"
  have j: "a_json ?a" and t: "a_title ?a = ''Test Results''"
    by (simp_all add: default_args_def)
  have n: "now_iso example_world = ''2024-01-01T00:00:00''"
    by (simp add: example_world_def)
  have o: "obtain_summary example_runtime example_world ?a = Some (Inr (manual_summary ?a))"
    by (simp add: obtain_summary_def present_def default_args_def)
  have st: "status (manual_summary ?a) = ''failed''"
    by (simp add: manual_summary_def status_def calculate_totals_def new_summary_def
          or_zero_def default_args_def)
  show ?thesis
    using json_emission [where a = ?a and rt = example_runtime and w = example_world
        and s = "manual_summary ?a"] j o st t n
    by simp
qed

section \<open>Exit codes\<close>









end
